theory Spec2Isabelle
  imports Main "HOL-Library.Word"
begin

section \<open>Urbanite: ultrasonic parking aid\<close>

text \<open>
  A shallow embedding of the finite state machines of the Urbanite parking aid
  (\<^verbatim>\<open>fsm_ultrasound.c\<close>, \<^verbatim>\<open>fsm_display.c\<close>, \<^verbatim>\<open>fsm_urbanite.c\<close>) and of the part of
  the STM32F4 port they call. C's \<^verbatim>\<open>uint32_t\<close> is \<^typ>\<open>32 word\<close>, \<^verbatim>\<open>uint8_t\<close> is
  \<^typ>\<open>8 word\<close>; structs are records, the state enums are datatypes, and every
  function that mutates a struct through a pointer takes the record and returns it updated.
  The debug \<^verbatim>\<open>printf\<close> calls are left out.
\<close>

type_synonym uint8_t = "8 word"
type_synonym uint32_t = "32 word"
type_synonym uint64_t = "64 word"

subsection \<open>The ultrasound port (\<^verbatim>\<open>stm32f4_ultrasound.c\<close>)\<close>

text \<open>
  \<^verbatim>\<open>ultrasounds_arr\<close> has one element, the rear parking sensor; the record is that
  element. Its first six fields are the flags and ticks of \<^verbatim>\<open>stm32f4_ultrasound_hw_t\<close>
  that the interrupt handlers write. The others stand for the hardware the port functions
  drive: the levels written on the trigger and echo lines, the counter-enable bit
  (\<^verbatim>\<open>CR1.CEN\<close>) of the echo (TIM2), trigger (TIM3) and new-measurement (TIM5) timers,
  and whether the interrupt of TIM5 is enabled in the NVIC. Every port function is called
  with the identifier of this sensor; the getters are the field selectors.
\<close>

record stm32f4_ultrasound_hw_t =
  echo_received :: bool
  trigger_end :: bool
  trigger_ready :: bool
  echo_end_tick :: uint32_t
  echo_init_tick :: uint32_t
  echo_overflows :: uint32_t
  trigger_line :: bool
  echo_line :: bool
  tim2_cen :: bool
  tim3_cen :: bool
  tim5_cen :: bool
  tim5_irq :: bool

definition port_ultrasound_stop_trigger_timer ::
    "stm32f4_ultrasound_hw_t \<Rightarrow> stm32f4_ultrasound_hw_t" where
  "port_ultrasound_stop_trigger_timer hw = hw\<lparr>trigger_line := False, tim3_cen := False\<rparr>"

definition port_ultrasound_stop_echo_timer ::
    "stm32f4_ultrasound_hw_t \<Rightarrow> stm32f4_ultrasound_hw_t" where
  "port_ultrasound_stop_echo_timer hw = hw\<lparr>echo_line := False, tim2_cen := False\<rparr>"

definition port_ultrasound_reset_echo_ticks ::
    "stm32f4_ultrasound_hw_t \<Rightarrow> stm32f4_ultrasound_hw_t" where
  "port_ultrasound_reset_echo_ticks hw =
     hw\<lparr>echo_received := False, echo_end_tick := 0, echo_init_tick := 0, echo_overflows := 0\<rparr>"

definition port_ultrasound_start_new_measurement_timer ::
    "stm32f4_ultrasound_hw_t \<Rightarrow> stm32f4_ultrasound_hw_t" where
  "port_ultrasound_start_new_measurement_timer hw = hw\<lparr>tim5_irq := True, tim5_cen := True\<rparr>"

definition port_ultrasound_stop_new_measurement_timer ::
    "stm32f4_ultrasound_hw_t \<Rightarrow> stm32f4_ultrasound_hw_t" where
  "port_ultrasound_stop_new_measurement_timer hw = hw\<lparr>tim5_cen := False\<rparr>"

definition port_ultrasound_stop_ultrasound ::
    "stm32f4_ultrasound_hw_t \<Rightarrow> stm32f4_ultrasound_hw_t" where
  "port_ultrasound_stop_ultrasound hw =
     port_ultrasound_reset_echo_ticks
       (port_ultrasound_stop_new_measurement_timer
         (port_ultrasound_stop_echo_timer
           (port_ultrasound_stop_trigger_timer hw)))"

definition port_ultrasound_set_trigger_ready ::
    "bool \<Rightarrow> stm32f4_ultrasound_hw_t \<Rightarrow> stm32f4_ultrasound_hw_t" where
  "port_ultrasound_set_trigger_ready v hw = hw\<lparr>trigger_ready := v\<rparr>"

text \<open>
  \<^verbatim>\<open>port_ultrasound_init\<close>: the flags and ticks, then the three timer set-ups, each of
  which clears the counter-enable bit of its timer. The static array starts zeroed.
\<close>

definition ultrasounds_arr_static :: stm32f4_ultrasound_hw_t where
  "ultrasounds_arr_static =
     \<lparr>echo_received = False, trigger_end = False, trigger_ready = False,
      echo_end_tick = 0, echo_init_tick = 0, echo_overflows = 0,
      trigger_line = False, echo_line = False,
      tim2_cen = False, tim3_cen = False, tim5_cen = False, tim5_irq = False\<rparr>"

definition port_ultrasound_init :: "stm32f4_ultrasound_hw_t \<Rightarrow> stm32f4_ultrasound_hw_t" where
  "port_ultrasound_init hw =
     hw\<lparr>trigger_ready := True, trigger_end := False, echo_received := False,
        echo_end_tick := 0, echo_init_tick := 0, echo_overflows := 0,
        tim3_cen := False, tim2_cen := False, tim5_cen := False\<rparr>"

subsection \<open>The ultrasound FSM (\<^verbatim>\<open>fsm_ultrasound.c\<close>)\<close>

text \<open>
  Modelled from the spec: \<^verbatim>\<open>FSM_ULTRASOUND_NUM_MEASUREMENTS\<close>, the length of the
  window, is defined in \<^verbatim>\<open>fsm_ultrasound.h\<close>, which is not among the sources; the
  specification gives the median window as N = 5.
\<close>

definition FSM_ULTRASOUND_NUM_MEASUREMENTS :: nat where
  "FSM_ULTRASOUND_NUM_MEASUREMENTS = 5"

text \<open>
  \<^verbatim>\<open>struct fsm_ultrasound_t\<close>, without the embedded \<^verbatim>\<open>fsm_t\<close>. The array
  \<^verbatim>\<open>distance_arr\<close> is a list, of length \<^const>\<open>FSM_ULTRASOUND_NUM_MEASUREMENTS\<close> in every
  state the program builds.
\<close>

record fsm_ultrasound_t =
  distance_cm :: uint32_t
  status :: bool
  new_measurement :: bool
  ultrasound_id :: uint32_t
  distance_arr :: "uint32_t list"
  distance_idx :: uint32_t

text \<open>
  \<^verbatim>\<open>_compare\<close>, the comparison function given to \<^verbatim>\<open>qsort\<close>: the difference of the two
  \<^verbatim>\<open>uint32_t\<close> values wraps around and is then returned as an \<^verbatim>\<open>int\<close>, that is read
  as a two's complement number.
\<close>

definition compare :: "uint32_t \<Rightarrow> uint32_t \<Rightarrow> int" where
  "compare a b = sint (a - b)"

text \<open>
  \<^verbatim>\<open>qsort\<close> of the C library, which sorts the first \<open>nmemb\<close> elements of an array in
  ascending order of the comparison function: an element goes before another when the
  function returns a value that is not positive. It is written here as an insertion sort.
\<close>

fun qsort_insert :: "('a \<Rightarrow> 'a \<Rightarrow> int) \<Rightarrow> 'a \<Rightarrow> 'a list \<Rightarrow> 'a list" where
  "qsort_insert compar x [] = [x]"
| "qsort_insert compar x (y # ys) =
     (if compar x y \<le> 0 then x # y # ys else y # qsort_insert compar x ys)"

definition qsort :: "'a list \<Rightarrow> nat \<Rightarrow> ('a \<Rightarrow> 'a \<Rightarrow> int) \<Rightarrow> 'a list" where
  "qsort base nmemb compar =
     foldr (qsort_insert compar) (take nmemb base) [] @ drop nmemb base"

text \<open>
  The local \<^verbatim>\<open>ticks_elapsed\<close> of \<^verbatim>\<open>do_set_distance\<close>, all in \<^verbatim>\<open>uint32_t\<close>:
  the capture timer counts microseconds and reloads at 65536; when the end tick is below
  the init tick one overflow belongs to the wrap and is discounted, under the guard
  \<^verbatim>\<open>overflows > 0\<close>.
\<close>

definition ticks_elapsed :: "uint32_t \<Rightarrow> uint32_t \<Rightarrow> uint32_t \<Rightarrow> uint32_t" where
  "ticks_elapsed init_tick end_tick overflows =
     (if end_tick \<ge> init_tick
      then (end_tick - init_tick) + overflows * 65536
      else ((65536 - init_tick) + end_tick)
             + (if overflows > 0 then overflows - 1 else overflows) * 65536)"

text \<open>
  The local \<^verbatim>\<open>distance\<close> of \<^verbatim>\<open>do_set_distance\<close>, the raw sample: the product by ten
  and the division by 583 are done in \<^verbatim>\<open>uint64_t\<close>, and the quotient is cast back to
  \<^verbatim>\<open>uint32_t\<close>.
\<close>

definition distance :: "uint32_t \<Rightarrow> uint32_t \<Rightarrow> uint32_t \<Rightarrow> uint32_t" where
  "distance init_tick end_tick overflows =
     ucast (((ucast (ticks_elapsed init_tick end_tick overflows) :: uint64_t) * 10) div 583)"

text \<open>
  \<^verbatim>\<open>do_set_distance\<close>. It reads the three capture values from the port, stores the raw
  sample at \<^verbatim>\<open>distance_idx\<close> and advances the index; when the index reaches the length
  of the window it is reset, the array is sorted and the median becomes
  \<^verbatim>\<open>distance_cm\<close>. At the end the echo timer is stopped and the echo ticks are reset.
  A store outside the array is undefined in C: the result is \<^const>\<open>None\<close>.
\<close>

definition do_set_distance ::
    "fsm_ultrasound_t \<times> stm32f4_ultrasound_hw_t
       \<Rightarrow> (fsm_ultrasound_t \<times> stm32f4_ultrasound_hw_t) option" where
  "do_set_distance = (\<lambda>(p_fsm, hw).
     let end_tick = echo_end_tick hw;
         init_tick = echo_init_tick hw;
         overflows = echo_overflows hw;
         d = distance init_tick end_tick overflows
     in if unat (distance_idx p_fsm) \<ge> length (distance_arr p_fsm) then None
        else
          let p1 = p_fsm\<lparr>distance_arr := (distance_arr p_fsm)[unat (distance_idx p_fsm) := d]\<rparr>;
              p2 = p1\<lparr>distance_idx := distance_idx p1 + 1\<rparr>;
              p3 = (if unat (distance_idx p2) \<ge> FSM_ULTRASOUND_NUM_MEASUREMENTS
                    then
                      let p4 = p2\<lparr>distance_idx := 0\<rparr>;
                          p5 = p4\<lparr>distance_arr :=
                                  qsort (distance_arr p4) FSM_ULTRASOUND_NUM_MEASUREMENTS compare\<rparr>;
                          p6 = (if FSM_ULTRASOUND_NUM_MEASUREMENTS mod 2 = 0
                                then
                                  let mid = FSM_ULTRASOUND_NUM_MEASUREMENTS div 2
                                  in p5\<lparr>distance_cm :=
                                         (distance_arr p5 ! (mid - 1) + distance_arr p5 ! mid) div 2\<rparr>
                                else p5\<lparr>distance_cm :=
                                         distance_arr p5 ! (FSM_ULTRASOUND_NUM_MEASUREMENTS div 2)\<rparr>)
                      in p6\<lparr>new_measurement := True\<rparr>
                    else p2)
          in Some (p3, port_ultrasound_reset_echo_ticks (port_ultrasound_stop_echo_timer hw)))"

text \<open>\<^verbatim>\<open>fsm_ultrasound_init\<close> and \<^verbatim>\<open>fsm_ultrasound_new\<close>.\<close>

definition fsm_ultrasound_new ::
    "uint32_t \<Rightarrow> stm32f4_ultrasound_hw_t \<Rightarrow> fsm_ultrasound_t \<times> stm32f4_ultrasound_hw_t" where
  "fsm_ultrasound_new ultrasound_id' hw =
     (\<lparr>distance_cm = 0, status = False, new_measurement = False, ultrasound_id = ultrasound_id',
       distance_arr = replicate FSM_ULTRASOUND_NUM_MEASUREMENTS 0, distance_idx = 0\<rparr>,
      port_ultrasound_init hw)"

definition fsm_ultrasound_get_distance :: "fsm_ultrasound_t \<Rightarrow> uint32_t \<times> fsm_ultrasound_t" where
  "fsm_ultrasound_get_distance p_fsm = (distance_cm p_fsm, p_fsm\<lparr>new_measurement := False\<rparr>)"

definition fsm_ultrasound_stop ::
    "fsm_ultrasound_t \<times> stm32f4_ultrasound_hw_t \<Rightarrow> fsm_ultrasound_t \<times> stm32f4_ultrasound_hw_t" where
  "fsm_ultrasound_stop = (\<lambda>(p_fsm, hw).
     (p_fsm\<lparr>status := False\<rparr>, port_ultrasound_stop_ultrasound hw))"

definition fsm_ultrasound_start ::
    "fsm_ultrasound_t \<times> stm32f4_ultrasound_hw_t \<Rightarrow> fsm_ultrasound_t \<times> stm32f4_ultrasound_hw_t" where
  "fsm_ultrasound_start = (\<lambda>(p_fsm, hw).
     (p_fsm\<lparr>status := True, distance_idx := 0, distance_cm := 0\<rparr>,
      port_ultrasound_start_new_measurement_timer
        (port_ultrasound_set_trigger_ready True
          (port_ultrasound_reset_echo_ticks hw))))"

definition fsm_ultrasound_get_new_measurement_ready :: "fsm_ultrasound_t \<Rightarrow> bool" where
  "fsm_ultrasound_get_new_measurement_ready p_fsm = new_measurement p_fsm"

definition fsm_ultrasound_check_activity :: "fsm_ultrasound_t \<Rightarrow> bool" where
  "fsm_ultrasound_check_activity p_fsm = False"

text \<open>
  Consecutive echo captures: \<^verbatim>\<open>do_set_distance\<close> run once on each state of the port in
  turn, each holding the capture values of one echo.
\<close>

fun set_distances ::
    "fsm_ultrasound_t \<Rightarrow> stm32f4_ultrasound_hw_t list \<Rightarrow> fsm_ultrasound_t option" where
  "set_distances p_fsm [] = Some p_fsm"
| "set_distances p_fsm (hw # hws) =
     (case do_set_distance (p_fsm, hw) of
        None \<Rightarrow> None
      | Some (p_fsm', hw') \<Rightarrow> set_distances p_fsm' hws)"

text \<open>
  The port once \<^verbatim>\<open>TIM2_IRQHandler\<close> has counted the overflows and recorded both edges
  of an echo, written with the setters of the port.
\<close>

definition echo_captured ::
    "uint32_t \<Rightarrow> uint32_t \<Rightarrow> uint32_t \<Rightarrow> stm32f4_ultrasound_hw_t \<Rightarrow> stm32f4_ultrasound_hw_t" where
  "echo_captured init_tick end_tick overflows hw =
     hw\<lparr>echo_overflows := overflows, echo_init_tick := init_tick,
        echo_end_tick := end_tick, echo_received := True\<rparr>"

text \<open>The raw sample that \<^verbatim>\<open>do_set_distance\<close> computes from a state of the port.\<close>

definition raw_distance :: "stm32f4_ultrasound_hw_t \<Rightarrow> uint32_t" where
  "raw_distance hw = distance (echo_init_tick hw) (echo_end_tick hw) (echo_overflows hw)"

text \<open>
  The distance as the specification words it, on unbounded integers: one overflow is taken
  off whenever the end tick is below the init tick.
\<close>

definition claimed_elapsed :: "int \<Rightarrow> int \<Rightarrow> int \<Rightarrow> int" where
  "claimed_elapsed init_tick end_tick overflows =
     (if end_tick \<ge> init_tick
      then (end_tick - init_tick) + overflows * 65536
      else (65536 - init_tick) + end_tick + (overflows - 1) * 65536)"

definition claimed_distance :: "int \<Rightarrow> int \<Rightarrow> int \<Rightarrow> int" where
  "claimed_distance init_tick end_tick overflows =
     (claimed_elapsed init_tick end_tick overflows * 10) div 583"

text \<open>The median of a window of odd length: the middle element of the sorted window.\<close>

definition median :: "uint32_t list \<Rightarrow> uint32_t" where
  "median xs = sort xs ! (length xs div 2)"

subsection \<open>The display FSM (\<^verbatim>\<open>fsm_display.c\<close>)\<close>

text \<open>
  Modelled from the spec: \<^verbatim>\<open>rgb_color_t\<close> is declared in \<^verbatim>\<open>port_display.h\<close>, which is
  not among the sources; the specification describes an RGB triple of 8-bit channels, and
  \<^verbatim>\<open>port_display_set_rgb\<close> reads each channel into a \<^verbatim>\<open>uint8_t\<close>.
\<close>

record rgb_color_t =
  r :: uint8_t
  g :: uint8_t
  b :: uint8_t

text \<open>
  The colour constants \<^verbatim>\<open>COLOR_RED\<close> to \<^verbatim>\<open>COLOR_OFF\<close> are defined in the same
  missing header, and the specification does not give their values. They are parameters
  of the model: the fields of this record.
\<close>

record colors =
  COLOR_RED :: rgb_color_t
  COLOR_YELLOW :: rgb_color_t
  COLOR_GREEN :: rgb_color_t
  COLOR_TURQUOISE :: rgb_color_t
  COLOR_BLUE :: rgb_color_t
  COLOR_OFF :: rgb_color_t

definition DANGER_MIN_CM :: int where "DANGER_MIN_CM = 0"
definition WARNING_MIN_CM :: int where "WARNING_MIN_CM = 25"
definition NO_PROBLEM_MIN_CM :: int where "NO_PROBLEM_MIN_CM = 50"
definition INFO_MIN_CM :: int where "INFO_MIN_CM = 150"
definition OK_MIN_CM :: int where "OK_MIN_CM = 175"
definition OK_MAX_CM :: int where "OK_MAX_CM = 200"

text \<open>
  \<^verbatim>\<open>_interpolate_color\<close>. The operands of each product are promoted to \<^verbatim>\<open>int\<close>, so
  the sum and the division by 255 are computed on integers; the quotient is then stored in
  a \<^verbatim>\<open>uint8_t\<close> channel.
\<close>

definition interpolate_color :: "rgb_color_t \<Rightarrow> rgb_color_t \<Rightarrow> uint8_t \<Rightarrow> rgb_color_t" where
  "interpolate_color colour_1 colour_2 t =
     \<lparr>r = word_of_int (((255 - uint t) * uint (r colour_1) + uint t * uint (r colour_2)) div 255),
      g = word_of_int (((255 - uint t) * uint (g colour_1) + uint t * uint (g colour_2)) div 255),
      b = word_of_int (((255 - uint t) * uint (b colour_1) + uint t * uint (b colour_2)) div 255)\<rparr>"

text \<open>
  \<^verbatim>\<open>_compute_display_levels\<close>. The distance is an \<^verbatim>\<open>int32_t\<close>: a 32-bit word read as a
  signed number. In each range the offset of the distance is cast to \<^verbatim>\<open>uint8_t\<close>,
  multiplied by 255 and divided by the width of the range on integers, and the quotient is
  stored in the \<^verbatim>\<open>uint8_t\<close> parameter \<open>t\<close>.
\<close>

type_synonym int32_t = "32 word"

text \<open>
  The local \<open>t\<close> of a branch of \<^verbatim>\<open>_compute_display_levels\<close>, for the range from
  \<open>lo\<close> to \<open>hi\<close>.
\<close>

definition range_t :: "int \<Rightarrow> int \<Rightarrow> int \<Rightarrow> uint8_t" where
  "range_t cm lo hi =
     word_of_int ((uint (word_of_int (cm - lo) :: uint8_t) * 255) div (hi - lo))"

definition compute_display_levels :: "colors \<Rightarrow> int32_t \<Rightarrow> rgb_color_t" where
  "compute_display_levels C distance_cm' =
     (let cm = sint distance_cm' in
      if cm \<ge> DANGER_MIN_CM \<and> cm \<le> WARNING_MIN_CM
      then interpolate_color (COLOR_RED C) (COLOR_YELLOW C)
             (range_t cm DANGER_MIN_CM WARNING_MIN_CM)
      else if cm > WARNING_MIN_CM \<and> cm \<le> NO_PROBLEM_MIN_CM
      then interpolate_color (COLOR_YELLOW C) (COLOR_GREEN C)
             (range_t cm WARNING_MIN_CM NO_PROBLEM_MIN_CM)
      else if cm > NO_PROBLEM_MIN_CM \<and> cm \<le> INFO_MIN_CM
      then interpolate_color (COLOR_GREEN C) (COLOR_TURQUOISE C)
             (range_t cm NO_PROBLEM_MIN_CM INFO_MIN_CM)
      else if cm > INFO_MIN_CM \<and> cm \<le> OK_MIN_CM
      then interpolate_color (COLOR_TURQUOISE C) (COLOR_BLUE C)
             (range_t cm INFO_MIN_CM OK_MIN_CM)
      else if cm > OK_MIN_CM \<and> cm \<le> OK_MAX_CM
      then COLOR_BLUE C
      else COLOR_OFF C)"

text \<open>\<^verbatim>\<open>struct fsm_display_t\<close>, without the embedded \<^verbatim>\<open>fsm_t\<close>.\<close>

record fsm_display_t =
  display_distance_cm :: int32_t
  new_color :: bool
  display_status :: bool
  idle :: bool
  display_id :: uint32_t

definition fsm_display_new :: "uint32_t \<Rightarrow> fsm_display_t" where
  "fsm_display_new display_id' =
     \<lparr>display_distance_cm = - 1, new_color = False, display_status = False, idle = False,
      display_id = display_id'\<rparr>"

definition fsm_display_set_distance :: "fsm_display_t \<Rightarrow> uint32_t \<Rightarrow> fsm_display_t" where
  "fsm_display_set_distance p_fsm distance_cm' =
     p_fsm\<lparr>display_distance_cm := distance_cm', new_color := True\<rparr>"

definition fsm_display_set_status :: "fsm_display_t \<Rightarrow> bool \<Rightarrow> fsm_display_t" where
  "fsm_display_set_status p_fsm pause = p_fsm\<lparr>display_status := pause\<rparr>"

definition fsm_display_check_activity :: "fsm_display_t \<Rightarrow> bool" where
  "fsm_display_check_activity p_fsm = (display_status p_fsm \<and> \<not> idle p_fsm)"

subsection \<open>The button FSM\<close>

text \<open>The states of the button, the enumeration of \<^verbatim>\<open>fsm_button.h\<close>.\<close>

datatype FSM_BUTTON_STATE =
  BUTTON_RELEASED | BUTTON_PRESSED_WAIT | BUTTON_PRESSED | BUTTON_RELEASED_WAIT

text \<open>
  Modelled from the spec: \<^verbatim>\<open>struct fsm_button_t\<close> is defined in \<^verbatim>\<open>fsm_button.c\<close>,
  which is not among the sources. The specification gives the button its state, debounce
  time, press tick, duration of the last press and identifier.
\<close>

record fsm_button_t =
  button_state :: FSM_BUTTON_STATE
  debounce_time_ms :: uint32_t
  press_tick :: uint32_t
  duration_ms :: uint32_t
  button_id :: uint32_t

text \<open>
  Modelled from the spec: \<^verbatim>\<open>fsm_button_new\<close> (\<^verbatim>\<open>fsm_button.c\<close> is missing). The
  button starts released, and its duration is zero until a press has been released.
\<close>

definition fsm_button_new :: "uint32_t \<Rightarrow> uint32_t \<Rightarrow> fsm_button_t" where
  "fsm_button_new debounce_time_ms' button_id' =
     \<lparr>button_state = BUTTON_RELEASED, debounce_time_ms = debounce_time_ms', press_tick = 0,
      duration_ms = 0, button_id = button_id'\<rparr>"

text \<open>
  Modelled from the spec: \<^verbatim>\<open>fsm_button_get_duration\<close> (\<^verbatim>\<open>fsm_button.c\<close> is missing)
  returns the duration of the last press.
\<close>

definition fsm_button_get_duration :: "fsm_button_t \<Rightarrow> uint32_t" where
  "fsm_button_get_duration p_fsm = duration_ms p_fsm"

text \<open>
  Modelled from the spec: \<^verbatim>\<open>fsm_button_reset_duration\<close> (\<^verbatim>\<open>fsm_button.c\<close> is
  missing) sets the duration back to zero.
\<close>

definition fsm_button_reset_duration :: "fsm_button_t \<Rightarrow> fsm_button_t" where
  "fsm_button_reset_duration p_fsm = p_fsm\<lparr>duration_ms := 0\<rparr>"

text \<open>
  Modelled from the spec: \<^verbatim>\<open>fsm_button_check_activity\<close> (\<^verbatim>\<open>fsm_button.c\<close> is
  missing) is true whenever the state is not the released one.
\<close>

definition fsm_button_check_activity :: "fsm_button_t \<Rightarrow> bool" where
  "fsm_button_check_activity p_fsm = (button_state p_fsm \<noteq> BUTTON_RELEASED)"

subsection \<open>The Urbanite FSM (\<^verbatim>\<open>fsm_urbanite.c\<close>)\<close>

datatype FSM_URBANITE = OFF | MEASURE | SLEEP_WHILE_OFF | SLEEP_WHILE_ON | EMERGENCY

text \<open>The calls of the system port that halt the processor or wait.\<close>

datatype port_system_call = Sleep | Delay_ms nat

text \<open>
  \<^verbatim>\<open>struct fsm_urbanite_t\<close>. The state of the embedded \<^verbatim>\<open>fsm_t\<close> is the field
  \<open>current_state\<close>, and the three pointers are the records they point to. The last two
  fields are not in the C struct: they are the global state that the actions reach through
  the port, the ultrasound port and the log of the calls of \<^verbatim>\<open>port_system_sleep\<close>
  and \<^verbatim>\<open>port_system_delay_ms\<close>.
\<close>

record fsm_urbanite_t =
  current_state :: FSM_URBANITE
  p_fsm_button :: fsm_button_t
  on_off_press_time_ms :: uint32_t
  pause_display_time_ms :: uint32_t
  emergency_time_ms :: uint32_t
  is_paused :: bool
  emergency_aux :: bool
  emergency :: bool
  p_fsm_ultrasound_rear :: fsm_ultrasound_t
  p_fsm_display_rear :: fsm_display_t
  ultrasounds_arr :: stm32f4_ultrasound_hw_t
  port_system :: "port_system_call list"

definition port_system_sleep :: "fsm_urbanite_t \<Rightarrow> fsm_urbanite_t" where
  "port_system_sleep s = s\<lparr>port_system := port_system s @ [Sleep]\<rparr>"

definition port_system_delay_ms :: "nat \<Rightarrow> fsm_urbanite_t \<Rightarrow> fsm_urbanite_t" where
  "port_system_delay_ms ms s = s\<lparr>port_system := port_system s @ [Delay_ms ms]\<rparr>"

text \<open>A function of the ultrasound FSM applied through \<^verbatim>\<open>p_fsm_ultrasound_rear\<close>.\<close>

definition on_ultrasound ::
    "(fsm_ultrasound_t \<times> stm32f4_ultrasound_hw_t \<Rightarrow> fsm_ultrasound_t \<times> stm32f4_ultrasound_hw_t)
       \<Rightarrow> fsm_urbanite_t \<Rightarrow> fsm_urbanite_t" where
  "on_ultrasound f s =
     (let (p_fsm, hw) = f (p_fsm_ultrasound_rear s, ultrasounds_arr s)
      in s\<lparr>p_fsm_ultrasound_rear := p_fsm, ultrasounds_arr := hw\<rparr>)"

text \<open>The input functions of the transitions.\<close>

definition check_on :: "fsm_urbanite_t \<Rightarrow> bool" where
  "check_on p_fsm =
     (let duration = fsm_button_get_duration (p_fsm_button p_fsm)
      in duration > 0 \<and> duration > on_off_press_time_ms p_fsm)"

definition check_off :: "fsm_urbanite_t \<Rightarrow> bool" where
  "check_off p_fsm =
     (let duration = fsm_button_get_duration (p_fsm_button p_fsm)
      in duration > 0 \<and> duration > on_off_press_time_ms p_fsm
           \<and> duration < emergency_time_ms p_fsm)"

definition check_emergency_on :: "fsm_urbanite_t \<Rightarrow> bool" where
  "check_emergency_on p_fsm =
     (let duration = fsm_button_get_duration (p_fsm_button p_fsm)
      in duration > 0 \<and> duration > emergency_time_ms p_fsm)"

definition check_emergency_continue :: "fsm_urbanite_t \<Rightarrow> bool" where
  "check_emergency_continue p_fsm = emergency p_fsm"

definition check_emergency_off :: "fsm_urbanite_t \<Rightarrow> bool" where
  "check_emergency_off p_fsm =
     (let duration = fsm_button_get_duration (p_fsm_button p_fsm)
      in duration > 0 \<and> duration > emergency_time_ms p_fsm)"

definition check_new_measure :: "fsm_urbanite_t \<Rightarrow> bool" where
  "check_new_measure p_fsm =
     fsm_ultrasound_get_new_measurement_ready (p_fsm_ultrasound_rear p_fsm)"

definition check_pause_display :: "fsm_urbanite_t \<Rightarrow> bool" where
  "check_pause_display p_fsm =
     (let duration = fsm_button_get_duration (p_fsm_button p_fsm)
      in duration > 0 \<and> duration < on_off_press_time_ms p_fsm
           \<and> duration \<ge> pause_display_time_ms p_fsm)"

definition check_activity :: "fsm_urbanite_t \<Rightarrow> bool" where
  "check_activity p_fsm =
     (fsm_ultrasound_check_activity (p_fsm_ultrasound_rear p_fsm)
      \<or> fsm_display_check_activity (p_fsm_display_rear p_fsm)
      \<or> fsm_button_check_activity (p_fsm_button p_fsm))"

definition check_no_activity :: "fsm_urbanite_t \<Rightarrow> bool" where
  "check_no_activity p_fsm = (\<not> check_activity p_fsm)"

definition check_activity_in_measure :: "fsm_urbanite_t \<Rightarrow> bool" where
  "check_activity_in_measure p_fsm = check_new_measure p_fsm"

text \<open>The output functions of the transitions.\<close>

definition do_start_up_measure :: "fsm_urbanite_t \<Rightarrow> fsm_urbanite_t" where
  "do_start_up_measure p_fsm =
     (let s1 = p_fsm\<lparr>p_fsm_button := fsm_button_reset_duration (p_fsm_button p_fsm)\<rparr>;
          s2 = on_ultrasound fsm_ultrasound_start s1
      in s2\<lparr>p_fsm_display_rear := fsm_display_set_status (p_fsm_display_rear s2) True\<rparr>)"

definition do_stop_urbanite :: "fsm_urbanite_t \<Rightarrow> fsm_urbanite_t" where
  "do_stop_urbanite p_fsm =
     (let s1 = p_fsm\<lparr>p_fsm_button := fsm_button_reset_duration (p_fsm_button p_fsm)\<rparr>;
          s2 = on_ultrasound fsm_ultrasound_stop s1;
          s3 = s2\<lparr>p_fsm_display_rear := fsm_display_set_status (p_fsm_display_rear s2) False\<rparr>
      in s3\<lparr>is_paused := False\<rparr>)"

definition do_pause_display :: "fsm_urbanite_t \<Rightarrow> fsm_urbanite_t" where
  "do_pause_display p_fsm =
     (let s1 = p_fsm\<lparr>p_fsm_button := fsm_button_reset_duration (p_fsm_button p_fsm)\<rparr>;
          s2 = s1\<lparr>is_paused := \<not> is_paused s1\<rparr>
      in s2\<lparr>p_fsm_display_rear :=
              fsm_display_set_status (p_fsm_display_rear s2) (\<not> is_paused s2)\<rparr>)"

definition do_display_distance :: "fsm_urbanite_t \<Rightarrow> fsm_urbanite_t" where
  "do_display_distance p_fsm =
     (let (distance_cm', us) = fsm_ultrasound_get_distance (p_fsm_ultrasound_rear p_fsm);
          s1 = p_fsm\<lparr>p_fsm_ultrasound_rear := us\<rparr>
      in if is_paused s1
         then if distance_cm' < word_of_int (WARNING_MIN_CM div 2)
              then
                let s2 = s1\<lparr>p_fsm_display_rear :=
                             fsm_display_set_distance (p_fsm_display_rear s1) distance_cm'\<rparr>
                in s2\<lparr>p_fsm_display_rear := fsm_display_set_status (p_fsm_display_rear s2) True\<rparr>
              else s1\<lparr>p_fsm_display_rear := fsm_display_set_status (p_fsm_display_rear s1) False\<rparr>
         else s1\<lparr>p_fsm_display_rear :=
                    fsm_display_set_distance (p_fsm_display_rear s1) distance_cm'\<rparr>)"

definition do_start_emergency :: "fsm_urbanite_t \<Rightarrow> fsm_urbanite_t" where
  "do_start_emergency p_fsm =
     (let s1 = p_fsm\<lparr>p_fsm_button := fsm_button_reset_duration (p_fsm_button p_fsm)\<rparr>;
          s2 = s1\<lparr>p_fsm_display_rear := fsm_display_set_status (p_fsm_display_rear s1) True\<rparr>;
          s3 = on_ultrasound fsm_ultrasound_stop s2
      in s3\<lparr>emergency_aux := True, emergency := True\<rparr>)"

definition do_stop_emergency :: "fsm_urbanite_t \<Rightarrow> fsm_urbanite_t" where
  "do_stop_emergency p_fsm =
     (let s1 = p_fsm\<lparr>p_fsm_button := fsm_button_reset_duration (p_fsm_button p_fsm)\<rparr>;
          s2 = on_ultrasound fsm_ultrasound_start s1;
          s3 = (if is_paused s2
                then s2\<lparr>p_fsm_display_rear :=
                          fsm_display_set_status (p_fsm_display_rear s2) False\<rparr>
                else s2)
      in s3\<lparr>emergency_aux := False, emergency := False\<rparr>)"

definition do_continue_emergency :: "fsm_urbanite_t \<Rightarrow> fsm_urbanite_t" where
  "do_continue_emergency p_fsm =
     (if emergency_aux p_fsm
      then
        let s1 = p_fsm\<lparr>p_fsm_display_rear :=
                       fsm_display_set_distance (p_fsm_display_rear p_fsm) 0\<rparr>;
            s2 = port_system_delay_ms 1000 s1
        in s2\<lparr>emergency_aux := False\<rparr>
      else
        let s1 = p_fsm\<lparr>p_fsm_display_rear :=
                       fsm_display_set_distance (p_fsm_display_rear p_fsm) 500\<rparr>;
            s2 = port_system_delay_ms 1000 s1
        in s2\<lparr>emergency_aux := True\<rparr>)"

definition do_sleep_off :: "fsm_urbanite_t \<Rightarrow> fsm_urbanite_t" where
  "do_sleep_off p_fsm = port_system_sleep p_fsm"

definition do_sleep_while_measure :: "fsm_urbanite_t \<Rightarrow> fsm_urbanite_t" where
  "do_sleep_while_measure p_fsm = port_system_sleep p_fsm"

definition do_sleep_while_off :: "fsm_urbanite_t \<Rightarrow> fsm_urbanite_t" where
  "do_sleep_while_off p_fsm = port_system_sleep p_fsm"

definition do_sleep_while_on :: "fsm_urbanite_t \<Rightarrow> fsm_urbanite_t" where
  "do_sleep_while_on p_fsm = port_system_sleep p_fsm"

text \<open>
  The transition table \<^verbatim>\<open>fsm_trans_urbanite\<close>, row by row: origin state, input
  function, destination state, output function (\<^const>\<open>None\<close> for \<^verbatim>\<open>NULL\<close>). The end
  of the list stands for the closing row \<^verbatim>\<open>{-1, NULL, -1, NULL}\<close>.
\<close>

type_synonym ('st, 's) fsm_trans_t = "'st \<times> ('s \<Rightarrow> bool) \<times> 'st \<times> ('s \<Rightarrow> 's) option"

definition fsm_trans_urbanite :: "(FSM_URBANITE, fsm_urbanite_t) fsm_trans_t list" where
  "fsm_trans_urbanite =
     [(OFF, check_no_activity, SLEEP_WHILE_OFF, Some do_sleep_off),
      (SLEEP_WHILE_OFF, check_activity, OFF, None),
      (SLEEP_WHILE_OFF, check_no_activity, SLEEP_WHILE_OFF, Some do_sleep_while_off),
      (OFF, check_on, MEASURE, Some do_start_up_measure),
      (MEASURE, check_pause_display, MEASURE, Some do_pause_display),
      (MEASURE, check_new_measure, MEASURE, Some do_display_distance),
      (MEASURE, check_no_activity, SLEEP_WHILE_ON, Some do_sleep_while_measure),
      (SLEEP_WHILE_ON, check_activity_in_measure, MEASURE, None),
      (SLEEP_WHILE_ON, check_no_activity, SLEEP_WHILE_ON, Some do_sleep_while_on),
      (MEASURE, check_emergency_on, EMERGENCY, Some do_start_emergency),
      (EMERGENCY, check_emergency_off, MEASURE, Some do_stop_emergency),
      (EMERGENCY, check_emergency_continue, EMERGENCY, Some do_continue_emergency),
      (MEASURE, check_off, OFF, Some do_stop_urbanite)]"

text \<open>
  Modelled from the spec: \<^verbatim>\<open>fsm_fire\<close> is defined in \<^verbatim>\<open>fsm.c\<close>, which is not among
  the sources. The specification says that it scans the table from the top, that the first
  row whose origin is the current state and whose input function holds wins, that the
  output function of that row runs if there is one, and that the current state becomes the
  destination of the row; when no row matches nothing changes.
\<close>

fun fsm_fire :: "('st, 's) fsm_trans_t list \<Rightarrow> 'st \<times> 's \<Rightarrow> 'st \<times> 's" where
  "fsm_fire [] (cur, s) = (cur, s)"
| "fsm_fire ((orig_state, in_fn, dest_state, out_fn) # rows) (cur, s) =
     (if cur = orig_state \<and> in_fn s
      then (dest_state, case out_fn of None \<Rightarrow> s | Some out \<Rightarrow> out s)
      else fsm_fire rows (cur, s))"

definition fsm_urbanite_fire :: "fsm_urbanite_t \<Rightarrow> fsm_urbanite_t" where
  "fsm_urbanite_fire p_fsm =
     (let (st, s) = fsm_fire fsm_trans_urbanite (current_state p_fsm, p_fsm)
      in s\<lparr>current_state := st\<rparr>)"

text \<open>\<^verbatim>\<open>fsm_urbanite_init\<close> and \<^verbatim>\<open>fsm_urbanite_new\<close>, with the state of the port.\<close>

definition fsm_urbanite_new ::
    "fsm_button_t \<Rightarrow> uint32_t \<Rightarrow> uint32_t \<Rightarrow> uint32_t \<Rightarrow> fsm_ultrasound_t \<Rightarrow> fsm_display_t
       \<Rightarrow> stm32f4_ultrasound_hw_t \<Rightarrow> fsm_urbanite_t" where
  "fsm_urbanite_new p_fsm_button' on_off_press_time_ms' pause_display_time_ms'
       emergency_time_ms' p_fsm_ultrasound_rear' p_fsm_display_rear' hw =
     \<lparr>current_state = OFF, p_fsm_button = p_fsm_button',
      on_off_press_time_ms = on_off_press_time_ms',
      pause_display_time_ms = pause_display_time_ms',
      emergency_time_ms = emergency_time_ms',
      is_paused = False, emergency_aux = False, emergency = False,
      p_fsm_ultrasound_rear = p_fsm_ultrasound_rear',
      p_fsm_display_rear = p_fsm_display_rear',
      ultrasounds_arr = hw, port_system = []\<rparr>"

text \<open>
  The machines as \<^verbatim>\<open>main\<close> creates them: debounce 150 ms, on/off press 1000 ms, pause
  press 250 ms, emergency press 3000 ms, all identifiers 0.
\<close>

definition main_urbanite :: fsm_urbanite_t where
  "main_urbanite =
     (let button = fsm_button_new 150 0;
          (ultrasound_rear, hw) = fsm_ultrasound_new 0 ultrasounds_arr_static;
          display_rear = fsm_display_new 0
      in fsm_urbanite_new button 1000 250 3000 ultrasound_rear display_rear hw)"

subsection \<open>States used in the examples\<close>

text \<open>
  An ultrasound FSM stopped in the middle of a window: three samples stored, the last two
  slots left from an earlier window.
\<close>

definition stale_ultrasound :: fsm_ultrasound_t where
  "stale_ultrasound =
     \<lparr>distance_cm = 120, status = False, new_measurement = True, ultrasound_id = 0,
      distance_arr = [7, 7, 7, 120, 300], distance_idx = 3\<rparr>"

text \<open>
  Modelled from the spec: the transition of the button FSM (\<^verbatim>\<open>fsm_button.c\<close> is
  missing) taken when the port reports a press; the button leaves the released state and
  waits for the debounce time.
\<close>

definition button_pressed :: "fsm_urbanite_t \<Rightarrow> fsm_urbanite_t" where
  "button_pressed s =
     s\<lparr>p_fsm_button := (p_fsm_button s)\<lparr>button_state := BUTTON_PRESSED_WAIT\<rparr>\<rparr>"

text \<open>
  Modelled from the spec: the transition of the button FSM (\<^verbatim>\<open>fsm_button.c\<close> is
  missing) taken when the press is released; the button records the duration of the press
  and waits for the debounce time again.
\<close>

definition button_released_after :: "uint32_t \<Rightarrow> fsm_urbanite_t \<Rightarrow> fsm_urbanite_t" where
  "button_released_after ms s =
     s\<lparr>p_fsm_button :=
         (p_fsm_button s)\<lparr>button_state := BUTTON_RELEASED_WAIT, duration_ms := ms\<rparr>\<rparr>"

text \<open>The ultrasound FSM has completed a window, with the given median.\<close>

definition window_completed :: "uint32_t \<Rightarrow> fsm_urbanite_t \<Rightarrow> fsm_urbanite_t" where
  "window_completed cm s =
     s\<lparr>p_fsm_ultrasound_rear :=
         (p_fsm_ultrasound_rear s)\<lparr>distance_cm := cm, new_measurement := True\<rparr>\<rparr>"

text \<open>
  The system of \<^verbatim>\<open>main\<close> switched on by a press of 1200 ms, and then put in emergency by
  a press of 3200 ms.
\<close>

definition measuring :: fsm_urbanite_t where
  "measuring = fsm_urbanite_fire (button_released_after 1200 main_urbanite)"

definition in_emergency :: fsm_urbanite_t where
  "in_emergency = fsm_urbanite_fire (button_released_after 3200 measuring)"

text \<open>
  The system asleep between two measurements: switched on, the button released, the
  display showing a colour and idle.
\<close>

definition sleeping_while_on :: fsm_urbanite_t where
  "sleeping_while_on =
     measuring\<lparr>current_state := SLEEP_WHILE_ON,
       p_fsm_button := (p_fsm_button measuring)\<lparr>button_state := BUTTON_RELEASED\<rparr>,
       p_fsm_display_rear := (p_fsm_display_rear measuring)\<lparr>idle := True\<rparr>\<rparr>"

section \<open>Properties\<close>

subsection \<open>Echo time to distance\<close>

lemma uint_ticks_elapsed:
  "uint (ticks_elapsed i e ov) =
     (if uint i \<le> uint e then uint e - uint i + uint ov * 65536
      else 65536 - uint i + uint e + (if 0 < uint ov then uint ov - 1 else uint ov) * 65536)
       mod 2 ^ 32"
proof -
  have a: "uint (e - i + ov * 65536) = (uint e - uint i + uint ov * 65536) mod 2 ^ 32"
    by (simp add: uint_word_ariths mod_simps)
  have b: "uint (65536 - i + e + (ov - 1) * 65536)
             = (65536 - uint i + uint e + (uint ov - 1) * 65536) mod 2 ^ 32"
    by (simp add: uint_word_ariths mod_simps)
  have c: "uint (65536 - i + e + ov * 65536)
             = (65536 - uint i + uint e + uint ov * 65536) mod 2 ^ 32"
    by (simp add: uint_word_ariths mod_simps)
  have d: "(0 < ov) = (0 < uint ov)"
    by (simp add: word_less_def)
  show ?thesis
    unfolding ticks_elapsed_def using a b c d by (simp add: word_le_def)
qed

lemma uint_distance:
  "uint (distance i e ov) = (uint (ticks_elapsed i e ov) * 10) div 583"
proof -
  let ?t = "ticks_elapsed i e ov"
  have t: "uint ?t < 2 ^ 32" using uint_lt2p [of ?t] by simp
  have t0: "0 \<le> uint ?t" by simp
  have u: "uint (ucast ?t :: uint64_t) = uint ?t"
    by (simp add: uint_up_ucast is_up)
  have m: "uint ((ucast ?t :: uint64_t) * 10) = uint ?t * 10"
    using t by (simp add: uint_word_ariths u)
  have q: "uint (((ucast ?t :: uint64_t) * 10) div 583) = (uint ?t * 10) div 583"
    by (simp add: uint_div m)
  from t t0 have r: "(uint ?t * 10) div 583 < 2 ^ 32" by simp
  have r0: "0 \<le> (uint ?t * 10) div 583"
    using t0 by (simp add: pos_imp_zdiv_nonneg_iff)
  have "uint (ucast (((ucast ?t :: uint64_t) * 10) div 583) :: uint32_t)
          = ((uint ?t * 10) div 583) mod 2 ^ 32"
    using q by (simp add: unsigned_ucast_eq take_bit_eq_mod)
  with r r0 show ?thesis unfolding distance_def by simp
qed

text \<open>
  Claim C1, as amended. For capture ticks below 65536 (the capture timer reloads at 65535)
  and an elapsed time \<open>E\<close> that fits in 32 bits, the raw sample of \<^verbatim>\<open>do_set_distance\<close>
  is the integer part of \<open>E * 10 / 583\<close>, where \<open>E\<close> is the end tick minus the init tick
  plus 65536 for each overflow when the end tick is not below the init tick, and otherwise
  65536 minus the init tick plus the end tick plus 65536 for each overflow but one, or for
  none when no overflow was counted. Except when the end tick is below the init tick and
  no overflow was counted, this is the distance the specification gives.
\<close>

theorem distance_formula:
  fixes init_tick end_tick overflows :: uint32_t
  assumes E: "E = (if init_tick \<le> end_tick
                  then uint end_tick - uint init_tick + uint overflows * 65536
                  else if 0 < overflows
                  then 65536 - uint init_tick + uint end_tick + (uint overflows - 1) * 65536
                  else 65536 - uint init_tick + uint end_tick)"
    and ticks: "uint init_tick < 65536" "uint end_tick < 65536"
    and fits: "E < 2 ^ 32"
  shows "uint (distance init_tick end_tick overflows) = (E * 10) div 583 \<and>
         (\<not> (end_tick < init_tick \<and> overflows = 0) \<longrightarrow>
            uint (distance init_tick end_tick overflows)
              = claimed_distance (uint init_tick) (uint end_tick) (uint overflows))"
proof -
  have e0: "0 \<le> uint end_tick" and o0: "0 \<le> uint overflows"
    by simp_all
  have nonneg: "0 \<le> E"
  proof (cases "init_tick \<le> end_tick")
    case True
    then have "uint init_tick \<le> uint end_tick" by (simp add: word_le_def)
    with True o0 show ?thesis by (simp add: E)
  next
    case False
    show ?thesis
    proof (cases "0 < overflows")
      case True
      then have "1 \<le> uint overflows" by (simp add: word_less_def)
      then have "0 \<le> (uint overflows - 1) * 65536" by simp
      with ticks e0
      have "0 \<le> 65536 - uint init_tick + uint end_tick + (uint overflows - 1) * 65536"
        by linarith
      with False True show ?thesis by (simp only: E if_False if_True)
    next
      case no: False
      with ticks e0 False show ?thesis by (simp add: E)
    qed
  qed
  have z: "uint overflows = 0" if "\<not> 0 < uint overflows"
    using that o0 by linarith
  have "uint (ticks_elapsed init_tick end_tick overflows) = E mod 2 ^ 32"
    by (simp add: uint_ticks_elapsed E word_le_def word_less_def z)
  with nonneg fits have "uint (ticks_elapsed init_tick end_tick overflows) = E"
    by simp
  then have d: "uint (distance init_tick end_tick overflows) = (E * 10) div 583"
    by (simp add: uint_distance)
  have "E = claimed_elapsed (uint init_tick) (uint end_tick) (uint overflows)"
    if "\<not> (end_tick < init_tick \<and> overflows = 0)"
    using that
    by (auto simp: E claimed_elapsed_def word_le_def word_less_def not_less word_neq_0_conv)
  with d show ?thesis
    by (simp add: claimed_distance_def)
qed

theorem distance_formula_witness:
  "uint (distance 65000 200 3) = (65536 - 65000 + 200 + 2 * 65536) * 10 div 583 \<and>
   uint (distance 65000 200 3) = claimed_distance 65000 200 3"
  using distance_formula [of "65536 - 65000 + 200 + 2 * 65536" 65000 200 3] by simp

text \<open>
  The claim as the specification states it fails in two places. With the end tick below
  the init tick and no overflow counted, the code takes nothing off, and the stated elapsed
  time is negative. With 65536 overflows the elapsed time does not fit in \<^verbatim>\<open>uint32_t\<close>
  and wraps to zero.
\<close>

theorem distance_formula_counterexample:
  "uint (distance 100 50 0) \<noteq> claimed_distance 100 50 0 \<and>
   uint (distance 0 0 65536) \<noteq> claimed_distance 0 0 65536"
  by (simp add: distance_def ticks_elapsed_def claimed_distance_def claimed_elapsed_def)

text \<open>
  Claim C8, as amended. For the echo capture with init tick 100, end tick 1091 and no
  overflow (991 microseconds), the raw sample of \<^verbatim>\<open>do_set_distance\<close> is 16 cm: 9910
  divided by 583 is just below 17, and the division truncates.
\<close>

theorem distance_991us:
  "distance 100 1091 0 = 16 \<and>
   raw_distance (ultrasounds_arr_static\<lparr>echo_init_tick := 100, echo_end_tick := 1091,
                   echo_overflows := 0, echo_received := True\<rparr>) = 16"
  by (simp add: raw_distance_def distance_def ticks_elapsed_def)

theorem distance_991us_counterexample:
  "distance 100 1091 0 \<noteq> 17"
  by (simp add: distance_def ticks_elapsed_def)

subsection \<open>The median window\<close>

text \<open>
  On values below \<open>2 ^ 31\<close> the difference returned by \<^verbatim>\<open>_compare\<close> has the sign of
  the comparison, so the sort by \<^verbatim>\<open>_compare\<close> is the sort of the values; every raw
  sample is below \<open>2 ^ 31\<close>.
\<close>

lemma compare_small:
  assumes "uint x < 2 ^ 31" "uint y < 2 ^ 31"
  shows "compare x y = uint x - uint y"
proof -
  have "x - y = word_of_int (uint x - uint y)"
    by simp
  then have "sint (x - y) = signed_take_bit 31 (uint x - uint y)"
    by (simp only: sint_sbintrunc') simp
  moreover have "- (2 ^ 31) \<le> uint x - uint y" "uint x - uint y < 2 ^ 31"
    using assms uint_ge_0 [of x] uint_ge_0 [of y] by linarith+
  ultimately show ?thesis
    by (simp add: compare_def signed_take_bit_int_eq_self)
qed

lemma compare_le:
  assumes "uint x < 2 ^ 31" "uint y < 2 ^ 31"
  shows "(compare x y \<le> 0) = (x \<le> y)"
  using compare_small [OF assms] by (simp add: word_le_def)

lemma distance_small: "uint (distance i e ov) < 2 ^ 31"
proof -
  let ?t = "ticks_elapsed i e ov"
  have "uint ?t < 2 ^ 32" using uint_lt2p [of ?t] by simp
  then have "(uint ?t * 10) div 583 < 2 ^ 31" by simp
  then show ?thesis by (simp add: uint_distance)
qed

lemma raw_distance_small: "uint (raw_distance hw) < 2 ^ 31"
  unfolding raw_distance_def by (rule distance_small)

lemma qsort_insert_compare:
  assumes "uint x < 2 ^ 31" "\<forall>y \<in> set ys. uint y < 2 ^ 31"
  shows "qsort_insert compare x ys = insort x ys"
  using assms by (induction ys) (simp_all add: compare_le)

lemma foldr_qsort_insert_compare:
  assumes "\<forall>y \<in> set xs. uint y < 2 ^ 31"
  shows "foldr (qsort_insert compare) xs [] = sort xs"
  using assms
proof (induction xs)
  case Nil
  then show ?case by simp
next
  case (Cons x xs)
  then have "foldr (qsort_insert compare) xs [] = sort xs" by simp
  moreover have "\<forall>y \<in> set (sort xs). uint y < 2 ^ 31" using Cons.prems by simp
  ultimately show ?case
    using Cons.prems by (simp add: qsort_insert_compare sort_key_def)
qed

lemma qsort_window:
  "qsort [raw_distance h1, raw_distance h2, raw_distance h3, raw_distance h4, raw_distance h5]
         5 compare
     = sort [raw_distance h1, raw_distance h2, raw_distance h3, raw_distance h4, raw_distance h5]"
proof -
  let ?w = "[raw_distance h1, raw_distance h2, raw_distance h3, raw_distance h4, raw_distance h5]"
  have "\<forall>y \<in> set ?w. uint y < 2 ^ 31"
    using raw_distance_small by auto
  then have "foldr (qsort_insert compare) ?w [] = sort ?w"
    by (rule foldr_qsort_insert_compare)
  then show ?thesis by (simp add: qsort_def)
qed

text \<open>One run of \<^verbatim>\<open>do_set_distance\<close>: below the last slot, and at the last slot.\<close>

lemma do_set_distance_store:
  assumes "length (distance_arr p) = FSM_ULTRASOUND_NUM_MEASUREMENTS"
    and "unat (distance_idx p) < 4"
  shows "do_set_distance (p, hw) =
           Some (p\<lparr>distance_arr := (distance_arr p)[unat (distance_idx p) := raw_distance hw],
                   distance_idx := distance_idx p + 1\<rparr>,
                 port_ultrasound_reset_echo_ticks (port_ultrasound_stop_echo_timer hw))"
proof -
  have "unat (distance_idx p) + unat (1 :: uint32_t) < 2 ^ LENGTH(32)"
    using assms(2) by simp
  then have "unat (distance_idx p + 1) = unat (distance_idx p) + unat (1 :: uint32_t)"
    by (simp only: unat_add_lem)
  then have "unat (distance_idx p + 1) < 5"
    using assms(2) by simp
  then show ?thesis
    using assms
    by (simp add: do_set_distance_def Let_def raw_distance_def FSM_ULTRASOUND_NUM_MEASUREMENTS_def)
qed

lemma do_set_distance_median:
  assumes "length (distance_arr p) = FSM_ULTRASOUND_NUM_MEASUREMENTS"
    and "distance_idx p = 4"
  shows "do_set_distance (p, hw) =
           Some (p\<lparr>distance_arr := qsort ((distance_arr p)[4 := raw_distance hw]) 5 compare,
                   distance_idx := 0,
                   distance_cm := qsort ((distance_arr p)[4 := raw_distance hw]) 5 compare ! 2,
                   new_measurement := True\<rparr>,
                 port_ultrasound_reset_echo_ticks (port_ultrasound_stop_echo_timer hw))"
  using assms
  by (simp add: do_set_distance_def Let_def raw_distance_def FSM_ULTRASOUND_NUM_MEASUREMENTS_def)

lemma window_list:
  assumes "length xs = 5"
  shows "xs[0 := a1, Suc 0 := a2, 2 := a3, 3 := a4, 4 := a5] = [a1, a2, a3, a4, a5]"
proof -
  from assms obtain x0 x1 x2 x3 x4 where "xs = [x0, x1, x2, x3, x4]"
    by (auto simp: length_Suc_conv eval_nat_numeral)
  then show ?thesis by (simp add: eval_nat_numeral)
qed

text \<open>
  Five runs from an empty window, with the state after each. The samples stored before
  the window began are all overwritten before the sort.
\<close>

lemma set_distances_window:
  fixes h1 h2 h3 h4 h5 :: stm32f4_ultrasound_hw_t
  assumes len: "length (distance_arr p) = FSM_ULTRASOUND_NUM_MEASUREMENTS"
    and idx: "distance_idx p = 0"
  defines "w \<equiv> [raw_distance h1, raw_distance h2, raw_distance h3, raw_distance h4,
                 raw_distance h5]"
  shows "set_distances p [h1] =
           Some (p\<lparr>distance_arr := (distance_arr p)[0 := raw_distance h1], distance_idx := 1\<rparr>)"
    and "set_distances p [h1, h2] =
           Some (p\<lparr>distance_arr := (distance_arr p)[0 := raw_distance h1, 1 := raw_distance h2],
                   distance_idx := 2\<rparr>)"
    and "set_distances p [h1, h2, h3] =
           Some (p\<lparr>distance_arr := (distance_arr p)[0 := raw_distance h1, 1 := raw_distance h2,
                                                      2 := raw_distance h3],
                   distance_idx := 3\<rparr>)"
    and "set_distances p [h1, h2, h3, h4] =
           Some (p\<lparr>distance_arr := (distance_arr p)[0 := raw_distance h1, 1 := raw_distance h2,
                                                      2 := raw_distance h3, 3 := raw_distance h4],
                   distance_idx := 4\<rparr>)"
    and "set_distances p [h1, h2, h3, h4, h5] =
           Some (p\<lparr>distance_arr := sort w, distance_idx := 0, distance_cm := sort w ! 2,
                   new_measurement := True\<rparr>)"
proof -
  let ?N = FSM_ULTRASOUND_NUM_MEASUREMENTS
  let ?off = "\<lambda>h. port_ultrasound_reset_echo_ticks (port_ultrasound_stop_echo_timer h)"
  define p1 where "p1 = p\<lparr>distance_arr := (distance_arr p)[0 := raw_distance h1],
                          distance_idx := 1\<rparr>"
  define p2 where "p2 = p1\<lparr>distance_arr := (distance_arr p1)[1 := raw_distance h2],
                           distance_idx := 2\<rparr>"
  define p3 where "p3 = p2\<lparr>distance_arr := (distance_arr p2)[2 := raw_distance h3],
                           distance_idx := 3\<rparr>"
  define p4 where "p4 = p3\<lparr>distance_arr := (distance_arr p3)[3 := raw_distance h4],
                           distance_idx := 4\<rparr>"
  define p5 where "p5 = p4\<lparr>distance_arr := sort w, distance_idx := 0,
                           distance_cm := sort w ! 2, new_measurement := True\<rparr>"
  have l1: "length (distance_arr p1) = ?N" and l2: "length (distance_arr p2) = ?N"
    and l3: "length (distance_arr p3) = ?N" and l4: "length (distance_arr p4) = ?N"
    using len by (simp_all add: p1_def p2_def p3_def p4_def)
  have s1: "do_set_distance (p, h1) = Some (p1, ?off h1)"
    using do_set_distance_store [OF len, of h1] idx by (simp add: p1_def)
  have s2: "do_set_distance (p1, h2) = Some (p2, ?off h2)"
    using do_set_distance_store [OF l1, of h2] by (simp add: p1_def p2_def)
  have s3: "do_set_distance (p2, h3) = Some (p3, ?off h3)"
    using do_set_distance_store [OF l2, of h3] by (simp add: p1_def p2_def p3_def)
  have s4: "do_set_distance (p3, h4) = Some (p4, ?off h4)"
    using do_set_distance_store [OF l3, of h4] by (simp add: p1_def p2_def p3_def p4_def)
  have arr: "(distance_arr p4)[4 := raw_distance h5] = w"
    using window_list [of "distance_arr p", OF len [unfolded FSM_ULTRASOUND_NUM_MEASUREMENTS_def]]
    by (simp add: p1_def p2_def p3_def p4_def w_def)
  have q: "qsort w 5 compare = sort w"
    unfolding w_def by (rule qsort_window)
  have i4: "distance_idx p4 = 4" by (simp add: p4_def)
  have s5: "do_set_distance (p4, h5) = Some (p5, ?off h5)"
    using do_set_distance_median [OF l4 i4, of h5] by (simp only: arr q p5_def)
  show "set_distances p [h1] =
           Some (p\<lparr>distance_arr := (distance_arr p)[0 := raw_distance h1], distance_idx := 1\<rparr>)"
    by (simp add: s1) (simp add: p1_def)
  show "set_distances p [h1, h2] =
           Some (p\<lparr>distance_arr := (distance_arr p)[0 := raw_distance h1, 1 := raw_distance h2],
                   distance_idx := 2\<rparr>)"
    by (simp add: s1 s2) (simp add: p1_def p2_def)
  show "set_distances p [h1, h2, h3] =
           Some (p\<lparr>distance_arr := (distance_arr p)[0 := raw_distance h1, 1 := raw_distance h2,
                                                      2 := raw_distance h3],
                   distance_idx := 3\<rparr>)"
    by (simp add: s1 s2 s3) (simp add: p1_def p2_def p3_def)
  show "set_distances p [h1, h2, h3, h4] =
           Some (p\<lparr>distance_arr := (distance_arr p)[0 := raw_distance h1, 1 := raw_distance h2,
                                                      2 := raw_distance h3, 3 := raw_distance h4],
                   distance_idx := 4\<rparr>)"
    by (simp add: s1 s2 s3 s4) (simp add: p1_def p2_def p3_def p4_def)
  show "set_distances p [h1, h2, h3, h4, h5] =
           Some (p\<lparr>distance_arr := sort w, distance_idx := 0, distance_cm := sort w ! 2,
                   new_measurement := True\<rparr>)"
    by (simp add: s1 s2 s3 s4 s5) (simp add: p1_def p2_def p3_def p4_def p5_def)
qed

text \<open>
  Claim C2. From an empty window (index 0, array of five slots), five consecutive echo
  captures all return; the first four leave \<^verbatim>\<open>distance_cm\<close> and \<^verbatim>\<open>new_measurement\<close> as
  they were, and the fifth sets \<^verbatim>\<open>distance_cm\<close> to the median of the five raw samples,
  sets \<^verbatim>\<open>new_measurement\<close>, and leaves the index at 0 with an array of five slots, that
  is an empty window again.
\<close>

theorem median_window:
  assumes len: "length (distance_arr p) = FSM_ULTRASOUND_NUM_MEASUREMENTS"
    and idx: "distance_idx p = 0"
  shows "\<exists>p1 p2 p3 p4 p5.
           set_distances p [h1] = Some p1 \<and>
           set_distances p [h1, h2] = Some p2 \<and>
           set_distances p [h1, h2, h3] = Some p3 \<and>
           set_distances p [h1, h2, h3, h4] = Some p4 \<and>
           set_distances p [h1, h2, h3, h4, h5] = Some p5 \<and>
           (\<forall>q \<in> {p1, p2, p3, p4}.
              distance_cm q = distance_cm p \<and> new_measurement q = new_measurement p) \<and>
           distance_cm p5 = median [raw_distance h1, raw_distance h2, raw_distance h3,
                                    raw_distance h4, raw_distance h5] \<and>
           new_measurement p5 \<and>
           distance_idx p5 = 0 \<and>
           length (distance_arr p5) = FSM_ULTRASOUND_NUM_MEASUREMENTS"
proof -
  note w = set_distances_window [OF len idx]
  show ?thesis
    by (intro exI conjI, rule w(1), rule w(2), rule w(3), rule w(4), rule w(5))
       (simp_all add: median_def FSM_ULTRASOUND_NUM_MEASUREMENTS_def)
qed

theorem median_window_witness:
  "length (distance_arr (fst (fsm_ultrasound_new 0 ultrasounds_arr_static)))
     = FSM_ULTRASOUND_NUM_MEASUREMENTS \<and>
   distance_idx (fst (fsm_ultrasound_new 0 ultrasounds_arr_static)) = 0 \<and>
   (\<exists>p5. set_distances (fst (fsm_ultrasound_new 0 ultrasounds_arr_static))
            [echo_captured 100 1849 0 ultrasounds_arr_static,
             echo_captured 65000 1097 1 ultrasounds_arr_static,
             echo_captured 0 11660 0 ultrasounds_arr_static,
             echo_captured 10 1701 0 ultrasounds_arr_static,
             echo_captured 5 1813 0 ultrasounds_arr_static] = Some p5 \<and>
          distance_cm p5 = 30 \<and> new_measurement p5 \<and> distance_idx p5 = 0)"
proof -
  let ?p = "fst (fsm_ultrasound_new 0 ultrasounds_arr_static)"
  have len: "length (distance_arr ?p) = FSM_ULTRASOUND_NUM_MEASUREMENTS"
    and idx: "distance_idx ?p = 0"
    by (simp_all add: fsm_ultrasound_new_def)
  have raw: "raw_distance (echo_captured 100 1849 0 ultrasounds_arr_static) = 30"
    "raw_distance (echo_captured 65000 1097 1 ultrasounds_arr_static) = 28"
    "raw_distance (echo_captured 0 11660 0 ultrasounds_arr_static) = 200"
    "raw_distance (echo_captured 10 1701 0 ultrasounds_arr_static) = 29"
    "raw_distance (echo_captured 5 1813 0 ultrasounds_arr_static) = 31"
    by (simp_all add: raw_distance_def echo_captured_def distance_def ticks_elapsed_def)
  have m: "median [30, 28, 200, 29, 31] = 30"
    by (simp add: median_def)
  from median_window [OF len idx, of "echo_captured 100 1849 0 ultrasounds_arr_static"
      "echo_captured 65000 1097 1 ultrasounds_arr_static"
      "echo_captured 0 11660 0 ultrasounds_arr_static"
      "echo_captured 10 1701 0 ultrasounds_arr_static"
      "echo_captured 5 1813 0 ultrasounds_arr_static"]
  obtain p5 where "set_distances ?p
            [echo_captured 100 1849 0 ultrasounds_arr_static,
             echo_captured 65000 1097 1 ultrasounds_arr_static,
             echo_captured 0 11660 0 ultrasounds_arr_static,
             echo_captured 10 1701 0 ultrasounds_arr_static,
             echo_captured 5 1813 0 ultrasounds_arr_static] = Some p5"
    and "distance_cm p5 = 30" and "new_measurement p5" and "distance_idx p5 = 0"
    unfolding raw m by blast
  with len idx show ?thesis by blast
qed

subsection \<open>Colours\<close>

lemma mix_bounds:
  fixes x y t :: int
  assumes t: "0 \<le> t" "t \<le> 255"
  shows "min x y \<le> ((255 - t) * x + t * y) div 255"
    and "((255 - t) * x + t * y) div 255 \<le> max x y"
proof -
  let ?S = "(255 - t) * x + t * y"
  have "(255 - t) * min x y \<le> (255 - t) * x" "t * min x y \<le> t * y"
    using t by (simp_all add: mult_left_mono)
  then have "(255 - t) * min x y + t * min x y \<le> ?S" by linarith
  then have "255 * min x y \<le> ?S" by (simp add: algebra_simps)
  then have "(255 * min x y) div 255 \<le> ?S div 255" by (rule zdiv_mono1) simp
  then show "min x y \<le> ?S div 255" by simp
  have "(255 - t) * x \<le> (255 - t) * max x y" "t * y \<le> t * max x y"
    using t by (simp_all add: mult_left_mono)
  then have "?S \<le> (255 - t) * max x y + t * max x y" by linarith
  then have "?S \<le> 255 * max x y" by (simp add: algebra_simps)
  then have "?S div 255 \<le> (255 * max x y) div 255" by (rule zdiv_mono1) simp
  then show "?S div 255 \<le> max x y" by simp
qed

lemma channel_bounds:
  fixes c1 c2 t :: uint8_t
  defines "v \<equiv> (word_of_int (((255 - uint t) * uint c1 + uint t * uint c2) div 255) :: uint8_t)"
  shows "uint v = ((255 - uint t) * uint c1 + uint t * uint c2) div 255"
    and "min c1 c2 \<le> v" and "v \<le> max c1 c2"
proof -
  let ?q = "((255 - uint t) * uint c1 + uint t * uint c2) div 255"
  have t: "0 \<le> uint t" "uint t \<le> 255"
    using uint_lt2p [of t] by simp_all
  have lo: "min (uint c1) (uint c2) \<le> ?q" and hi: "?q \<le> max (uint c1) (uint c2)"
    using mix_bounds [OF t] by simp_all
  have "0 \<le> min (uint c1) (uint c2)" by simp
  with lo have q0: "0 \<le> ?q" by linarith
  have "max (uint c1) (uint c2) < 256"
    using uint_lt2p [of c1] uint_lt2p [of c2] by simp
  with hi have q1: "?q < 256" by linarith
  from q0 q1 show u: "uint v = ?q"
    by (simp add: v_def uint_word_of_int)
  have mn: "uint (min c1 c2) = min (uint c1) (uint c2)"
    by (simp add: min_def word_le_def)
  have mx: "uint (max c1 c2) = max (uint c1) (uint c2)"
    by (simp add: max_def word_le_def)
  show "min c1 c2 \<le> v" using lo by (simp only: word_le_def u mn)
  show "v \<le> max c1 c2" using hi by (simp only: word_le_def u mx)
qed

lemma channel_end:
  fixes c1 c2 :: uint8_t
  shows "(word_of_int (((255 - uint (0 :: uint8_t)) * uint c1 + uint (0 :: uint8_t) * uint c2) div 255) :: uint8_t) = c1"
    and "(word_of_int (((255 - uint (255 :: uint8_t)) * uint c1 + uint (255 :: uint8_t) * uint c2) div 255) :: uint8_t) = c2"
  by simp_all

text \<open>
  Claim C10. For every pair of colours, \<^verbatim>\<open>_interpolate_color\<close> returns the first at
  \<open>t = 0\<close> and the second at \<open>t = 255\<close>, and for every \<open>t\<close> (a \<^verbatim>\<open>uint8_t\<close>, so
  between 0 and 255) each channel of the result lies between the least and the greatest of
  that channel in the two colours.
\<close>

theorem interpolate_color_bounds:
  "interpolate_color colour_1 colour_2 0 = colour_1 \<and>
   interpolate_color colour_1 colour_2 255 = colour_2 \<and>
   min (r colour_1) (r colour_2) \<le> r (interpolate_color colour_1 colour_2 t) \<and>
   r (interpolate_color colour_1 colour_2 t) \<le> max (r colour_1) (r colour_2) \<and>
   min (g colour_1) (g colour_2) \<le> g (interpolate_color colour_1 colour_2 t) \<and>
   g (interpolate_color colour_1 colour_2 t) \<le> max (g colour_1) (g colour_2) \<and>
   min (b colour_1) (b colour_2) \<le> b (interpolate_color colour_1 colour_2 t) \<and>
   b (interpolate_color colour_1 colour_2 t) \<le> max (b colour_1) (b colour_2)"
proof -
  have e0: "interpolate_color colour_1 colour_2 0 = colour_1"
    by (simp add: interpolate_color_def)
  have e1: "interpolate_color colour_1 colour_2 255 = colour_2"
    by (simp add: interpolate_color_def)
  show ?thesis
    using e0 e1 channel_bounds(2) [where t = t] channel_bounds(3) [where t = t]
    by (simp add: interpolate_color_def)
qed

text \<open>
  Claim C7. At the distances 0, 25, 50, 150 and 175 cm, where a range ends, the parameter
  \<open>t\<close> is 0 for the first and 255 for the others, and \<^verbatim>\<open>_compute_display_levels\<close>
  gives exactly red, yellow, green, turquoise and blue, whatever the values of these
  colour constants are.
\<close>

theorem compute_display_levels_boundaries:
  "compute_display_levels C 0 = COLOR_RED C \<and>
   compute_display_levels C 25 = COLOR_YELLOW C \<and>
   compute_display_levels C 50 = COLOR_GREEN C \<and>
   compute_display_levels C 150 = COLOR_TURQUOISE C \<and>
   compute_display_levels C 175 = COLOR_BLUE C \<and>
   range_t 0 DANGER_MIN_CM WARNING_MIN_CM = 0 \<and>
   range_t 25 DANGER_MIN_CM WARNING_MIN_CM = 255 \<and>
   range_t 50 WARNING_MIN_CM NO_PROBLEM_MIN_CM = 255 \<and>
   range_t 150 NO_PROBLEM_MIN_CM INFO_MIN_CM = 255 \<and>
   range_t 175 INFO_MIN_CM OK_MIN_CM = 255"
  by (simp add: compute_display_levels_def range_t_def interpolate_color_def
        DANGER_MIN_CM_def WARNING_MIN_CM_def NO_PROBLEM_MIN_CM_def INFO_MIN_CM_def
        OK_MIN_CM_def OK_MAX_CM_def)

subsection \<open>Starting the ultrasound FSM\<close>

text \<open>
  Claim C9. Whatever the state before, \<^verbatim>\<open>fsm_ultrasound_start\<close> enables the sensor,
  resets the index of the window and the distance to 0, resets the echo ticks, marks the
  trigger ready and enables the new-measurement timer and its interrupt. The window is
  cleared by resetting its index: the stored samples are not erased, but the next five
  captures overwrite them all, and the median they produce is that of these five captures
  alone.
\<close>

theorem fsm_ultrasound_start_effect:
  assumes "fsm_ultrasound_start (p, hw) = (p', hw')"
  shows "status p' \<and> distance_idx p' = 0 \<and> distance_cm p' = 0 \<and>
         trigger_ready hw' \<and> tim5_cen hw' \<and> tim5_irq hw' \<and>
         \<not> echo_received hw' \<and> echo_init_tick hw' = 0 \<and> echo_end_tick hw' = 0 \<and>
         echo_overflows hw' = 0 \<and>
         (length (distance_arr p) = FSM_ULTRASOUND_NUM_MEASUREMENTS \<longrightarrow>
            (\<exists>p5. set_distances p' [h1, h2, h3, h4, h5] = Some p5 \<and>
                  distance_cm p5 = median [raw_distance h1, raw_distance h2, raw_distance h3,
                                           raw_distance h4, raw_distance h5]))"
proof -
  from assms have p': "p' = p\<lparr>status := True, distance_idx := 0, distance_cm := 0\<rparr>"
    and hw': "hw' = port_ultrasound_start_new_measurement_timer
                      (port_ultrasound_set_trigger_ready True
                        (port_ultrasound_reset_echo_ticks hw))"
    by (simp_all add: fsm_ultrasound_start_def)
  have flags: "status p' \<and> distance_idx p' = 0 \<and> distance_cm p' = 0"
    by (simp add: p')
  have port: "trigger_ready hw' \<and> tim5_cen hw' \<and> tim5_irq hw' \<and>
         \<not> echo_received hw' \<and> echo_init_tick hw' = 0 \<and> echo_end_tick hw' = 0 \<and>
         echo_overflows hw' = 0"
    by (simp add: hw' port_ultrasound_start_new_measurement_timer_def
          port_ultrasound_set_trigger_ready_def port_ultrasound_reset_echo_ticks_def)
  have ring: "\<exists>p5. set_distances p' [h1, h2, h3, h4, h5] = Some p5 \<and>
                  distance_cm p5 = median [raw_distance h1, raw_distance h2, raw_distance h3,
                                           raw_distance h4, raw_distance h5]"
    if len: "length (distance_arr p) = FSM_ULTRASOUND_NUM_MEASUREMENTS"
  proof -
    have l: "length (distance_arr p') = FSM_ULTRASOUND_NUM_MEASUREMENTS"
      and i: "distance_idx p' = 0"
      using len by (simp_all add: p')
    show ?thesis
      using set_distances_window(5) [OF l i, of h1 h2 h3 h4 h5]
      by (simp add: median_def)
  qed
  from flags port ring show ?thesis by blast
qed

theorem fsm_ultrasound_start_effect_witness:
  "\<exists>p' hw'. fsm_ultrasound_start (stale_ultrasound, ultrasounds_arr_static) = (p', hw') \<and>
     status p' \<and> distance_idx p' = 0 \<and> trigger_ready hw' \<and> tim5_cen hw' \<and>
     length (distance_arr stale_ultrasound) = FSM_ULTRASOUND_NUM_MEASUREMENTS \<and>
     (\<exists>p5. set_distances p'
               [echo_captured 100 1849 0 ultrasounds_arr_static,
                echo_captured 65000 1097 1 ultrasounds_arr_static,
                echo_captured 0 11660 0 ultrasounds_arr_static,
                echo_captured 10 1701 0 ultrasounds_arr_static,
                echo_captured 5 1813 0 ultrasounds_arr_static] = Some p5 \<and>
             distance_cm p5 = 30)"
proof -
  obtain p' hw' where s: "fsm_ultrasound_start (stale_ultrasound, ultrasounds_arr_static) = (p', hw')"
    by (cases "fsm_ultrasound_start (stale_ultrasound, ultrasounds_arr_static)")
  have len: "length (distance_arr stale_ultrasound) = FSM_ULTRASOUND_NUM_MEASUREMENTS"
    by (simp add: stale_ultrasound_def FSM_ULTRASOUND_NUM_MEASUREMENTS_def)
  have raw: "raw_distance (echo_captured 100 1849 0 ultrasounds_arr_static) = 30"
    "raw_distance (echo_captured 65000 1097 1 ultrasounds_arr_static) = 28"
    "raw_distance (echo_captured 0 11660 0 ultrasounds_arr_static) = 200"
    "raw_distance (echo_captured 10 1701 0 ultrasounds_arr_static) = 29"
    "raw_distance (echo_captured 5 1813 0 ultrasounds_arr_static) = 31"
    by (simp_all add: raw_distance_def echo_captured_def distance_def ticks_elapsed_def)
  have m: "median [30, 28, 200, 29, 31] = 30"
    by (simp add: median_def)
  from fsm_ultrasound_start_effect [OF s, of "echo_captured 100 1849 0 ultrasounds_arr_static"
      "echo_captured 65000 1097 1 ultrasounds_arr_static"
      "echo_captured 0 11660 0 ultrasounds_arr_static"
      "echo_captured 10 1701 0 ultrasounds_arr_static"
      "echo_captured 5 1813 0 ultrasounds_arr_static"] len s
  show ?thesis
    unfolding raw m by blast
qed

subsection \<open>The Urbanite FSM\<close>

text \<open>
  Claim C5. The threshold \<^verbatim>\<open>WARNING_MIN_CM / 2\<close> is 12. When \<^verbatim>\<open>do_display_distance\<close>
  runs with \<^verbatim>\<open>is_paused\<close> set, the status of the display afterwards is true exactly
  when the distance read from the ultrasound FSM is below 12, and the distance is given to
  the display FSM (its distance set, its new-colour flag raised) in that case only; with
  \<^verbatim>\<open>is_paused\<close> clear the distance is always given to the display FSM and the status
  is left as it was.
\<close>

theorem do_display_distance_pause:
  fixes p_fsm :: fsm_urbanite_t
  defines "d \<equiv> distance_cm (p_fsm_ultrasound_rear p_fsm)"
    and "old \<equiv> p_fsm_display_rear p_fsm"
    and "new \<equiv> p_fsm_display_rear (do_display_distance p_fsm)"
  shows "word_of_int (WARNING_MIN_CM div 2) = (12 :: uint32_t) \<and>
         (is_paused p_fsm \<longrightarrow>
            display_status new = (d < 12) \<and>
            (d < 12 \<longrightarrow> display_distance_cm new = d \<and> new_color new) \<and>
            (\<not> d < 12 \<longrightarrow> display_distance_cm new = display_distance_cm old \<and>
                                new_color new = new_color old)) \<and>
         (\<not> is_paused p_fsm \<longrightarrow>
            display_distance_cm new = d \<and> new_color new \<and>
            display_status new = display_status old)"
  by (simp add: d_def old_def new_def do_display_distance_def fsm_ultrasound_get_distance_def
        fsm_display_set_distance_def fsm_display_set_status_def WARNING_MIN_CM_def Let_def)

theorem do_display_distance_pause_witness:
  "is_paused (window_completed 8 (measuring\<lparr>is_paused := True\<rparr>)) \<and>
   display_status (p_fsm_display_rear
     (do_display_distance (window_completed 8 (measuring\<lparr>is_paused := True\<rparr>)))) \<and>
   display_distance_cm (p_fsm_display_rear
     (do_display_distance (window_completed 8 (measuring\<lparr>is_paused := True\<rparr>)))) = 8 \<and>
   is_paused (window_completed 12 (measuring\<lparr>is_paused := True\<rparr>)) \<and>
   \<not> display_status (p_fsm_display_rear
     (do_display_distance (window_completed 12 (measuring\<lparr>is_paused := True\<rparr>)))) \<and>
   \<not> is_paused (window_completed 40 measuring) \<and>
   display_distance_cm (p_fsm_display_rear
     (do_display_distance (window_completed 40 measuring))) = 40"
proof -
  have p: "is_paused (window_completed cm (measuring\<lparr>is_paused := True\<rparr>))"
    and d: "distance_cm (p_fsm_ultrasound_rear (window_completed cm s)) = cm" for cm s
    by (simp_all add: window_completed_def)
  have n: "\<not> is_paused (window_completed 40 measuring)"
    by (simp add: window_completed_def measuring_def fsm_urbanite_fire_def
          fsm_trans_urbanite_def main_urbanite_def fsm_urbanite_new_def fsm_ultrasound_new_def
          button_released_after_def check_no_activity_def check_activity_def check_on_def
          fsm_button_check_activity_def fsm_button_get_duration_def do_start_up_measure_def
          on_ultrasound_def fsm_ultrasound_start_def Let_def)
  have lt: "(8 :: uint32_t) < 12" and nlt: "\<not> (12 :: uint32_t) < 12"
    by simp_all
  show ?thesis
    using do_display_distance_pause [of "window_completed 8 (measuring\<lparr>is_paused := True\<rparr>)",
        unfolded d]
      do_display_distance_pause [of "window_completed 12 (measuring\<lparr>is_paused := True\<rparr>)",
        unfolded d]
      do_display_distance_pause [of "window_completed 40 measuring", unfolded d]
      p n lt nlt
    by simp
qed

text \<open>What one firing does in each state, from the table read top to bottom.\<close>

lemmas guard_defs = check_on_def check_off_def check_emergency_on_def check_emergency_off_def
  check_emergency_continue_def check_new_measure_def check_pause_display_def
  check_no_activity_def check_activity_in_measure_def fsm_button_get_duration_def
  fsm_ultrasound_get_new_measurement_ready_def

lemma fire_OFF:
  assumes "current_state s = OFF"
  shows "fsm_urbanite_fire s =
           (if check_no_activity s then (do_sleep_off s)\<lparr>current_state := SLEEP_WHILE_OFF\<rparr>
            else if check_on s then (do_start_up_measure s)\<lparr>current_state := MEASURE\<rparr>
            else s)"
  using assms by (simp add: fsm_urbanite_fire_def fsm_trans_urbanite_def)

lemma fire_SLEEP_WHILE_OFF:
  assumes "current_state s = SLEEP_WHILE_OFF"
  shows "fsm_urbanite_fire s =
           (if check_activity s then s\<lparr>current_state := OFF\<rparr>
            else if check_no_activity s
            then (do_sleep_while_off s)\<lparr>current_state := SLEEP_WHILE_OFF\<rparr>
            else s)"
  using assms by (simp add: fsm_urbanite_fire_def fsm_trans_urbanite_def)

lemma fire_MEASURE:
  assumes "current_state s = MEASURE"
  shows "fsm_urbanite_fire s =
           (if check_pause_display s then (do_pause_display s)\<lparr>current_state := MEASURE\<rparr>
            else if check_new_measure s then (do_display_distance s)\<lparr>current_state := MEASURE\<rparr>
            else if check_no_activity s
            then (do_sleep_while_measure s)\<lparr>current_state := SLEEP_WHILE_ON\<rparr>
            else if check_emergency_on s
            then (do_start_emergency s)\<lparr>current_state := EMERGENCY\<rparr>
            else if check_off s then (do_stop_urbanite s)\<lparr>current_state := OFF\<rparr>
            else s)"
  using assms by (simp add: fsm_urbanite_fire_def fsm_trans_urbanite_def)

lemma fire_SLEEP_WHILE_ON:
  assumes "current_state s = SLEEP_WHILE_ON"
  shows "fsm_urbanite_fire s =
           (if check_activity_in_measure s then s\<lparr>current_state := MEASURE\<rparr>
            else if check_no_activity s
            then (do_sleep_while_on s)\<lparr>current_state := SLEEP_WHILE_ON\<rparr>
            else s)"
  using assms by (simp add: fsm_urbanite_fire_def fsm_trans_urbanite_def)

lemma fire_EMERGENCY:
  assumes "current_state s = EMERGENCY"
  shows "fsm_urbanite_fire s =
           (if check_emergency_off s then (do_stop_emergency s)\<lparr>current_state := MEASURE\<rparr>
            else if check_emergency_continue s
            then (do_continue_emergency s)\<lparr>current_state := EMERGENCY\<rparr>
            else s)"
  using assms by (simp add: fsm_urbanite_fire_def fsm_trans_urbanite_def)

lemma check_on_iff:
  "check_on s = (on_off_press_time_ms s < duration_ms (p_fsm_button s))"
  by (auto simp: check_on_def fsm_button_get_duration_def Let_def word_gt_0)

lemma check_emergency_on_iff:
  "check_emergency_on s = (emergency_time_ms s < duration_ms (p_fsm_button s))"
  by (auto simp: check_emergency_on_def fsm_button_get_duration_def Let_def word_gt_0)

lemma check_emergency_off_iff:
  "check_emergency_off s = (emergency_time_ms s < duration_ms (p_fsm_button s))"
  by (auto simp: check_emergency_off_def fsm_button_get_duration_def Let_def word_gt_0)

lemma current_state_do [simp]:
  "current_state (do_start_up_measure s) = current_state s"
  "current_state (do_sleep_off s) = current_state s"
  "current_state (do_sleep_while_off s) = current_state s"
  "current_state (do_sleep_while_on s) = current_state s"
  by (simp_all add: do_start_up_measure_def on_ultrasound_def Let_def split_beta
      do_sleep_off_def do_sleep_while_off_def do_sleep_while_on_def port_system_sleep_def)

lemmas action_defs = do_start_up_measure_def do_stop_urbanite_def do_pause_display_def
  do_display_distance_def do_start_emergency_def do_stop_emergency_def do_continue_emergency_def
  do_sleep_off_def do_sleep_while_measure_def do_sleep_while_off_def do_sleep_while_on_def
  port_system_sleep_def port_system_delay_ms_def on_ultrasound_def
  fsm_ultrasound_start_def fsm_ultrasound_stop_def fsm_ultrasound_get_distance_def
  fsm_display_set_distance_def fsm_display_set_status_def fsm_button_reset_duration_def
  port_ultrasound_start_new_measurement_timer_def port_ultrasound_set_trigger_ready_def
  port_ultrasound_reset_echo_ticks_def port_ultrasound_stop_ultrasound_def
  port_ultrasound_stop_new_measurement_timer_def port_ultrasound_stop_echo_timer_def
  port_ultrasound_stop_trigger_timer_def

lemma current_state_actions:
  "current_state (do_pause_display s) = current_state s"
  "current_state (do_display_distance s) = current_state s"
  "current_state (do_sleep_while_measure s) = current_state s"
  "current_state (do_start_emergency s) = current_state s"
  "current_state (do_stop_emergency s) = current_state s"
  "current_state (do_continue_emergency s) = current_state s"
  "current_state (do_stop_urbanite s) = current_state s"
  by (simp_all add: action_defs Let_def split_beta)

text \<open>The example states, evaluated.\<close>

lemmas example_defs = measuring_def in_emergency_def sleeping_while_on_def
  button_released_after_def button_pressed_def window_completed_def
  main_urbanite_def fsm_urbanite_new_def fsm_button_new_def fsm_ultrasound_new_def
  fsm_display_new_def port_ultrasound_init_def ultrasounds_arr_static_def
  fsm_urbanite_fire_def fsm_trans_urbanite_def guard_defs check_activity_def
  fsm_button_check_activity_def fsm_display_check_activity_def
  fsm_ultrasound_check_activity_def action_defs Let_def

lemma measuring_state:
  "current_state measuring = MEASURE"
  "emergency_time_ms measuring = 3000"
  "on_off_press_time_ms measuring = 1000"
  "pause_display_time_ms measuring = 250"
  "\<not> new_measurement (p_fsm_ultrasound_rear measuring)"
  "display_status (p_fsm_display_rear measuring)"
  "\<not> idle (p_fsm_display_rear measuring)"
  by (simp_all add: example_defs)

lemma in_emergency_state:
  "current_state in_emergency = EMERGENCY"
  "emergency_time_ms in_emergency = 3000"
  by (simp_all add: example_defs)

text \<open>
  Claim C3, as amended. In state \<^verbatim>\<open>OFF\<close> with some leaf active, one firing goes to
  \<^verbatim>\<open>MEASURE\<close> exactly when the duration of the press is greater than the on/off time,
  with no upper bound; then it resets the duration, starts the ultrasound and enables the
  display, and otherwise it changes nothing.
\<close>

theorem off_to_measure:
  assumes off: "current_state s = OFF" and act: "check_activity s"
  shows "(current_state (fsm_urbanite_fire s) = MEASURE)
           = (on_off_press_time_ms s < duration_ms (p_fsm_button s)) \<and>
         (on_off_press_time_ms s < duration_ms (p_fsm_button s) \<longrightarrow>
            fsm_urbanite_fire s = (do_start_up_measure s)\<lparr>current_state := MEASURE\<rparr> \<and>
            duration_ms (p_fsm_button (fsm_urbanite_fire s)) = 0 \<and>
            status (p_fsm_ultrasound_rear (fsm_urbanite_fire s)) \<and>
            distance_idx (p_fsm_ultrasound_rear (fsm_urbanite_fire s)) = 0 \<and>
            trigger_ready (ultrasounds_arr (fsm_urbanite_fire s)) \<and>
            tim5_cen (ultrasounds_arr (fsm_urbanite_fire s)) \<and>
            display_status (p_fsm_display_rear (fsm_urbanite_fire s))) \<and>
         (\<not> on_off_press_time_ms s < duration_ms (p_fsm_button s) \<longrightarrow>
            fsm_urbanite_fire s = s)"
proof -
  have f: "fsm_urbanite_fire s =
             (if check_on s then (do_start_up_measure s)\<lparr>current_state := MEASURE\<rparr> else s)"
    using fire_OFF [OF off] act by (simp add: check_no_activity_def)
  show ?thesis
    unfolding f check_on_iff using off
    by (simp add: do_start_up_measure_def on_ultrasound_def fsm_ultrasound_start_def
          fsm_button_reset_duration_def fsm_display_set_status_def Let_def
          port_ultrasound_start_new_measurement_timer_def port_ultrasound_set_trigger_ready_def
          port_ultrasound_reset_echo_ticks_def)
qed

theorem off_to_measure_counterexample:
  "current_state (button_released_after 1000 main_urbanite) = OFF \<and>
   check_activity (button_released_after 1000 main_urbanite) \<and>
   on_off_press_time_ms main_urbanite \<le> 1000 \<and> 1000 < emergency_time_ms main_urbanite \<and>
   current_state (fsm_urbanite_fire (button_released_after 1000 main_urbanite)) \<noteq> MEASURE \<and>
   current_state (button_released_after 3200 main_urbanite) = OFF \<and>
   check_activity (button_released_after 3200 main_urbanite) \<and>
   \<not> 3200 < emergency_time_ms main_urbanite \<and>
   current_state (fsm_urbanite_fire (button_released_after 3200 main_urbanite)) = MEASURE"
  by (simp add: button_released_after_def main_urbanite_def fsm_urbanite_new_def
        fsm_button_new_def fsm_ultrasound_new_def fsm_display_new_def
        fsm_urbanite_fire_def fsm_trans_urbanite_def guard_defs check_activity_def
        fsm_button_check_activity_def fsm_display_check_activity_def
        fsm_ultrasound_check_activity_def do_start_up_measure_def on_ultrasound_def
        fsm_ultrasound_start_def Let_def)

theorem off_to_measure_witness:
  "current_state (button_released_after 1200 main_urbanite) = OFF \<and>
   check_activity (button_released_after 1200 main_urbanite) \<and>
   current_state (fsm_urbanite_fire (button_released_after 1200 main_urbanite)) = MEASURE \<and>
   status (p_fsm_ultrasound_rear (fsm_urbanite_fire (button_released_after 1200 main_urbanite))) \<and>
   display_status (p_fsm_display_rear (fsm_urbanite_fire (button_released_after 1200 main_urbanite))) \<and>
   current_state (button_released_after 800 main_urbanite) = OFF \<and>
   check_activity (button_released_after 800 main_urbanite) \<and>
   fsm_urbanite_fire (button_released_after 800 main_urbanite) = button_released_after 800 main_urbanite"
proof -
  have a: "current_state (button_released_after d main_urbanite) = OFF"
    and c: "check_activity (button_released_after d main_urbanite)"
    and t: "on_off_press_time_ms (button_released_after d main_urbanite) = 1000"
    and u: "duration_ms (p_fsm_button (button_released_after d main_urbanite)) = d" for d
    by (simp_all add: button_released_after_def main_urbanite_def fsm_urbanite_new_def
        fsm_ultrasound_new_def check_activity_def fsm_button_check_activity_def)
  have lt: "(1000 :: uint32_t) < 1200" and nlt: "\<not> (1000 :: uint32_t) < 800"
    by simp_all
  show ?thesis
    using off_to_measure [OF a c, of 1200, unfolded t u]
      off_to_measure [OF a c, of 800, unfolded t u] a c lt nlt
    by blast
qed

text \<open>
  Claim C4, as amended. With \<open>d\<close> the duration of the press: in state \<^verbatim>\<open>MEASURE\<close> one
  firing goes to \<^verbatim>\<open>EMERGENCY\<close> exactly when \<open>d\<close> is greater than the emergency time
  and no earlier row of the table fires, that is no pause press, no new measurement and
  some leaf active; it then resets the duration, stops the ultrasound and its timers,
  enables the display and sets both emergency flags. In state \<^verbatim>\<open>EMERGENCY\<close> one firing
  goes back to \<^verbatim>\<open>MEASURE\<close> exactly when \<open>d\<close> is greater than the emergency time; it
  then resets the duration, restarts the ultrasound, clears both emergency flags and
  disables the display if the system is paused. A press of at most the emergency time
  causes neither transition. When the on/off time is at most the emergency time, a press
  longer than the emergency time is never a pause press.
\<close>

theorem emergency_transitions:
  fixes s :: fsm_urbanite_t
  defines "d \<equiv> duration_ms (p_fsm_button s)"
    and "s' \<equiv> fsm_urbanite_fire s"
  shows
    "(current_state s = MEASURE \<longrightarrow>
        (current_state s' = EMERGENCY) =
          (emergency_time_ms s < d \<and> \<not> check_pause_display s \<and>
           \<not> new_measurement (p_fsm_ultrasound_rear s) \<and> check_activity s)) \<and>
     (current_state s = MEASURE \<and> current_state s' = EMERGENCY \<longrightarrow>
        s' = (do_start_emergency s)\<lparr>current_state := EMERGENCY\<rparr> \<and>
        duration_ms (p_fsm_button s') = 0 \<and>
        \<not> status (p_fsm_ultrasound_rear s') \<and>
        \<not> tim2_cen (ultrasounds_arr s') \<and> \<not> tim3_cen (ultrasounds_arr s') \<and>
        \<not> tim5_cen (ultrasounds_arr s') \<and>
        emergency s' \<and> emergency_aux s' \<and> display_status (p_fsm_display_rear s')) \<and>
     (current_state s = EMERGENCY \<longrightarrow>
        (current_state s' = MEASURE) = (emergency_time_ms s < d)) \<and>
     (current_state s = EMERGENCY \<and> current_state s' = MEASURE \<longrightarrow>
        s' = (do_stop_emergency s)\<lparr>current_state := MEASURE\<rparr> \<and>
        duration_ms (p_fsm_button s') = 0 \<and>
        status (p_fsm_ultrasound_rear s') \<and>
        trigger_ready (ultrasounds_arr s') \<and> tim5_cen (ultrasounds_arr s') \<and>
        \<not> emergency s' \<and> \<not> emergency_aux s' \<and>
        display_status (p_fsm_display_rear s')
          = (\<not> is_paused s \<and> display_status (p_fsm_display_rear s))) \<and>
     (on_off_press_time_ms s \<le> emergency_time_ms s \<and> emergency_time_ms s < d \<longrightarrow>
        \<not> check_pause_display s)"
proof -
  have m: "(current_state s' = EMERGENCY) =
          (emergency_time_ms s < d \<and> \<not> check_pause_display s \<and>
           \<not> new_measurement (p_fsm_ultrasound_rear s) \<and> check_activity s)"
    if "current_state s = MEASURE"
    unfolding s'_def d_def fire_MEASURE [OF that]
    by (simp add: current_state_actions check_emergency_on_iff check_new_measure_def
          fsm_ultrasound_get_new_measurement_ready_def check_no_activity_def that)
  have ma: "s' = (do_start_emergency s)\<lparr>current_state := EMERGENCY\<rparr>"
    if "current_state s = MEASURE" "current_state s' = EMERGENCY"
    using that(2) unfolding s'_def fire_MEASURE [OF that(1)]
    by (simp add: current_state_actions that(1) split: if_splits)
  have mp: "duration_ms (p_fsm_button t) = 0 \<and>
        \<not> status (p_fsm_ultrasound_rear t) \<and>
        \<not> tim2_cen (ultrasounds_arr t) \<and> \<not> tim3_cen (ultrasounds_arr t) \<and>
        \<not> tim5_cen (ultrasounds_arr t) \<and>
        emergency t \<and> emergency_aux t \<and> display_status (p_fsm_display_rear t)"
    if "t = (do_start_emergency s)\<lparr>current_state := EMERGENCY\<rparr>" for t
    unfolding that by (simp add: action_defs Let_def)
  have e: "(current_state s' = MEASURE) = (emergency_time_ms s < d)"
    if "current_state s = EMERGENCY"
    unfolding s'_def d_def fire_EMERGENCY [OF that]
    by (simp add: current_state_actions check_emergency_off_iff that)
  have ea: "s' = (do_stop_emergency s)\<lparr>current_state := MEASURE\<rparr>"
    if "current_state s = EMERGENCY" "current_state s' = MEASURE"
    using that(2) unfolding s'_def fire_EMERGENCY [OF that(1)]
    by (simp add: current_state_actions that(1) split: if_splits)
  have ep: "duration_ms (p_fsm_button t) = 0 \<and>
        status (p_fsm_ultrasound_rear t) \<and>
        trigger_ready (ultrasounds_arr t) \<and> tim5_cen (ultrasounds_arr t) \<and>
        \<not> emergency t \<and> \<not> emergency_aux t \<and>
        display_status (p_fsm_display_rear t)
          = (\<not> is_paused s \<and> display_status (p_fsm_display_rear s))"
    if "t = (do_stop_emergency s)\<lparr>current_state := MEASURE\<rparr>" for t
    unfolding that by (simp add: action_defs Let_def)
  have np: "\<not> check_pause_display s"
    if "on_off_press_time_ms s \<le> emergency_time_ms s" "emergency_time_ms s < d"
    using that by (auto simp: check_pause_display_def fsm_button_get_duration_def Let_def d_def)
  from m ma mp e ea ep np show ?thesis by blast
qed

text \<open>
  The claim as stated fails for a press of exactly the emergency time, in both states, and
  in \<^verbatim>\<open>MEASURE\<close> for a longer press when a new measurement is pending.
\<close>

theorem emergency_transitions_counterexample:
  "current_state (button_released_after 3000 measuring) = MEASURE \<and>
   duration_ms (p_fsm_button (button_released_after 3000 measuring))
     \<ge> emergency_time_ms (button_released_after 3000 measuring) \<and>
   current_state (fsm_urbanite_fire (button_released_after 3000 measuring)) \<noteq> EMERGENCY \<and>
   current_state (button_released_after 3000 in_emergency) = EMERGENCY \<and>
   duration_ms (p_fsm_button (button_released_after 3000 in_emergency))
     \<ge> emergency_time_ms (button_released_after 3000 in_emergency) \<and>
   current_state (fsm_urbanite_fire (button_released_after 3000 in_emergency)) \<noteq> MEASURE \<and>
   current_state (window_completed 40 (button_released_after 3200 measuring)) = MEASURE \<and>
   duration_ms (p_fsm_button (window_completed 40 (button_released_after 3200 measuring)))
     \<ge> emergency_time_ms (window_completed 40 (button_released_after 3200 measuring)) \<and>
   current_state (fsm_urbanite_fire (window_completed 40 (button_released_after 3200 measuring)))
     \<noteq> EMERGENCY"
  by (simp add: example_defs)

theorem emergency_transitions_witness:
  "current_state (button_released_after 3200 measuring) = MEASURE \<and>
   current_state (fsm_urbanite_fire (button_released_after 3200 measuring)) = EMERGENCY \<and>
   emergency (fsm_urbanite_fire (button_released_after 3200 measuring)) \<and>
   \<not> status (p_fsm_ultrasound_rear (fsm_urbanite_fire (button_released_after 3200 measuring))) \<and>
   current_state (button_released_after 3200 in_emergency) = EMERGENCY \<and>
   current_state (fsm_urbanite_fire (button_released_after 3200 in_emergency)) = MEASURE \<and>
   status (p_fsm_ultrasound_rear (fsm_urbanite_fire (button_released_after 3200 in_emergency))) \<and>
   \<not> emergency (fsm_urbanite_fire (button_released_after 3200 in_emergency))"
proof -
  let ?A = "button_released_after 3200 measuring"
  let ?B = "button_released_after 3200 in_emergency"
  have A: "current_state ?A = MEASURE" "emergency_time_ms ?A < duration_ms (p_fsm_button ?A)"
    "\<not> check_pause_display ?A" "\<not> new_measurement (p_fsm_ultrasound_rear ?A)"
    "check_activity ?A" "on_off_press_time_ms ?A \<le> emergency_time_ms ?A"
    using measuring_state
    by (simp_all add: button_released_after_def check_pause_display_def check_activity_def
          fsm_button_check_activity_def fsm_button_get_duration_def)
  have B: "current_state ?B = EMERGENCY" "emergency_time_ms ?B < duration_ms (p_fsm_button ?B)"
    using in_emergency_state by (simp_all add: button_released_after_def)
  show ?thesis
    using emergency_transitions [of ?A] emergency_transitions [of ?B] A B
    by blast
qed

text \<open>
  Claim C6, as amended. From \<^verbatim>\<open>SLEEP_WHILE_OFF\<close>, when a leaf is active (the display
  enabled and not idle, or the button not released; the ultrasound never reports
  activity) one firing goes back to \<^verbatim>\<open>OFF\<close>. From \<^verbatim>\<open>SLEEP_WHILE_ON\<close> one firing
  goes back to \<^verbatim>\<open>MEASURE\<close> exactly when the ultrasound FSM has a new measurement; with
  no new measurement and a leaf active it changes nothing.
\<close>

theorem sleep_wake:
  fixes s :: fsm_urbanite_t
  shows
    "(current_state s = SLEEP_WHILE_OFF \<and> check_activity s \<longrightarrow>
        fsm_urbanite_fire s = s\<lparr>current_state := OFF\<rparr>) \<and>
     (current_state s = SLEEP_WHILE_ON \<longrightarrow>
        (current_state (fsm_urbanite_fire s) = MEASURE)
          = new_measurement (p_fsm_ultrasound_rear s)) \<and>
     (current_state s = SLEEP_WHILE_ON \<and> new_measurement (p_fsm_ultrasound_rear s) \<longrightarrow>
        fsm_urbanite_fire s = s\<lparr>current_state := MEASURE\<rparr>) \<and>
     (current_state s = SLEEP_WHILE_ON \<and> \<not> new_measurement (p_fsm_ultrasound_rear s) \<and>
      check_activity s \<longrightarrow>
        fsm_urbanite_fire s = s) \<and>
     check_activity s =
       (display_status (p_fsm_display_rear s) \<and> \<not> idle (p_fsm_display_rear s)
        \<or> button_state (p_fsm_button s) \<noteq> BUTTON_RELEASED)"
proof -
  have a: "fsm_urbanite_fire s = s\<lparr>current_state := OFF\<rparr>"
    if "current_state s = SLEEP_WHILE_OFF" "check_activity s"
    using that by (simp add: fire_SLEEP_WHILE_OFF)
  have f: "fsm_urbanite_fire s =
             (if new_measurement (p_fsm_ultrasound_rear s) then s\<lparr>current_state := MEASURE\<rparr>
              else if check_activity s then s
              else (do_sleep_while_on s)\<lparr>current_state := SLEEP_WHILE_ON\<rparr>)"
    if "current_state s = SLEEP_WHILE_ON"
    using that
    by (simp add: fire_SLEEP_WHILE_ON check_activity_in_measure_def check_new_measure_def
          fsm_ultrasound_get_new_measurement_ready_def check_no_activity_def)
  have b: "(current_state (fsm_urbanite_fire s) = MEASURE)
          = new_measurement (p_fsm_ultrasound_rear s)"
    if "current_state s = SLEEP_WHILE_ON"
    unfolding f [OF that] using that by simp
  have c: "fsm_urbanite_fire s = s\<lparr>current_state := MEASURE\<rparr>"
    if "current_state s = SLEEP_WHILE_ON" "new_measurement (p_fsm_ultrasound_rear s)"
    unfolding f [OF that(1)] using that by simp
  have d: "fsm_urbanite_fire s = s"
    if "current_state s = SLEEP_WHILE_ON" "\<not> new_measurement (p_fsm_ultrasound_rear s)"
      "check_activity s"
    unfolding f [OF that(1)] using that by simp
  have e: "check_activity s =
       (display_status (p_fsm_display_rear s) \<and> \<not> idle (p_fsm_display_rear s)
        \<or> button_state (p_fsm_button s) \<noteq> BUTTON_RELEASED)"
    by (simp add: check_activity_def fsm_ultrasound_check_activity_def
          fsm_display_check_activity_def fsm_button_check_activity_def)
  from a b c d e show ?thesis by blast
qed

text \<open>
  The claim as stated fails in \<^verbatim>\<open>SLEEP_WHILE_ON\<close> when the button is pressed and no
  measurement is pending: the system stays in \<^verbatim>\<open>SLEEP_WHILE_ON\<close>.
\<close>

theorem sleep_wake_counterexample:
  "current_state (button_pressed sleeping_while_on) = SLEEP_WHILE_ON \<and>
   check_activity (button_pressed sleeping_while_on) \<and>
   current_state (fsm_urbanite_fire (button_pressed sleeping_while_on)) \<noteq> MEASURE"
  by (simp add: example_defs)

theorem sleep_wake_witness:
  "current_state (button_pressed (fsm_urbanite_fire main_urbanite)) = SLEEP_WHILE_OFF \<and>
   check_activity (button_pressed (fsm_urbanite_fire main_urbanite)) \<and>
   current_state (fsm_urbanite_fire (button_pressed (fsm_urbanite_fire main_urbanite))) = OFF \<and>
   current_state (window_completed 40 sleeping_while_on) = SLEEP_WHILE_ON \<and>
   new_measurement (p_fsm_ultrasound_rear (window_completed 40 sleeping_while_on)) \<and>
   current_state (fsm_urbanite_fire (window_completed 40 sleeping_while_on)) = MEASURE \<and>
   current_state (button_pressed sleeping_while_on) = SLEEP_WHILE_ON \<and>
   \<not> new_measurement (p_fsm_ultrasound_rear (button_pressed sleeping_while_on)) \<and>
   check_activity (button_pressed sleeping_while_on) \<and>
   fsm_urbanite_fire (button_pressed sleeping_while_on) = button_pressed sleeping_while_on"
proof -
  let ?X = "button_pressed (fsm_urbanite_fire main_urbanite)"
  let ?Y = "window_completed 40 sleeping_while_on"
  let ?Z = "button_pressed sleeping_while_on"
  have X: "current_state ?X = SLEEP_WHILE_OFF" "check_activity ?X"
    by (simp_all add: example_defs)
  have Y: "current_state ?Y = SLEEP_WHILE_ON" "new_measurement (p_fsm_ultrasound_rear ?Y)"
    by (simp_all add: example_defs)
  have Z: "current_state ?Z = SLEEP_WHILE_ON" "\<not> new_measurement (p_fsm_ultrasound_rear ?Z)"
    "check_activity ?Z"
    by (simp_all add: example_defs)
  have "current_state (?X\<lparr>current_state := OFF\<rparr>) = OFF" by simp
  then show ?thesis
    using sleep_wake [of ?X] sleep_wake [of ?Y] sleep_wake [of ?Z] X Y Z
    by metis
qed

end
